theory Spec2Isabelle
  imports Complex_Main
begin

section \<open>Numbers\<close>

text \<open>
  The program computes with IEEE doubles inside numpy arrays and pandas tables. They are
  idealised here: a finite double is an exact real (no rounding, no overflow), zero is
  unsigned (a zero divisor counts as +0), and the three special values that numpy produces
  instead of raising are kept, because the program tests for them and drops them:
  \<open>NaN\<close> (also pandas' marker of a missing cell), \<open>PInf\<close> and \<open>NInf\<close>.
\<close>

datatype fl = Fin real | PInf | NInf | NaN

datatype py_error = ValueError | IndexError

fun isnan :: "fl \<Rightarrow> bool" where
  "isnan NaN = True"
| "isnan _ = False"

text \<open>A finite number.\<close>

fun is_fin :: "fl \<Rightarrow> bool" where
  "is_fin (Fin x) = True"
| "is_fin _ = False"

fun fneg :: "fl \<Rightarrow> fl" where
  "fneg (Fin x) = Fin (- x)"
| "fneg PInf = NInf"
| "fneg NInf = PInf"
| "fneg NaN = NaN"

fun fadd :: "fl \<Rightarrow> fl \<Rightarrow> fl" where
  "fadd (Fin x) (Fin y) = Fin (x + y)"
| "fadd NaN _ = NaN"
| "fadd _ NaN = NaN"
| "fadd PInf NInf = NaN"
| "fadd NInf PInf = NaN"
| "fadd PInf _ = PInf"
| "fadd _ PInf = PInf"
| "fadd NInf _ = NInf"
| "fadd _ NInf = NInf"

definition fsub :: "fl \<Rightarrow> fl \<Rightarrow> fl" where
  "fsub a b = fadd a (fneg b)"

text \<open>The infinity of a given sign; a zero sign (0 times infinity, 0 / 0) is \<open>NaN\<close>.\<close>

definition inf_of_sign :: "real \<Rightarrow> fl" where
  "inf_of_sign s = (if s = 0 then NaN else if 0 < s then PInf else NInf)"

fun fsgn :: "fl \<Rightarrow> real" where
  "fsgn (Fin x) = sgn x"
| "fsgn PInf = 1"
| "fsgn NInf = - 1"
| "fsgn NaN = 0"

fun fmul :: "fl \<Rightarrow> fl \<Rightarrow> fl" where
  "fmul (Fin x) (Fin y) = Fin (x * y)"
| "fmul NaN _ = NaN"
| "fmul _ NaN = NaN"
| "fmul a b = inf_of_sign (fsgn a * fsgn b)"

fun fdiv :: "fl \<Rightarrow> fl \<Rightarrow> fl" where
  "fdiv NaN _ = NaN"
| "fdiv _ NaN = NaN"
| "fdiv (Fin x) (Fin y) = (if y = 0 then inf_of_sign x else Fin (x / y))"
| "fdiv (Fin x) _ = Fin 0"
| "fdiv a (Fin y) = (if 0 \<le> y then a else fneg a)"
| "fdiv _ _ = NaN"

fun fsqrt :: "fl \<Rightarrow> fl" where
  "fsqrt (Fin x) = (if x < 0 then NaN else Fin (sqrt x))"
| "fsqrt PInf = PInf"
| "fsqrt NInf = NaN"
| "fsqrt NaN = NaN"

text \<open>Comparisons: every comparison with \<open>NaN\<close> is false.\<close>

fun fle :: "fl \<Rightarrow> fl \<Rightarrow> bool" where
  "fle (Fin x) (Fin y) = (x \<le> y)"
| "fle NaN _ = False"
| "fle _ NaN = False"
| "fle NInf _ = True"
| "fle _ PInf = True"
| "fle _ _ = False"

fun flt :: "fl \<Rightarrow> fl \<Rightarrow> bool" where
  "flt (Fin x) (Fin y) = (x < y)"
| "flt NaN _ = False"
| "flt _ NaN = False"
| "flt NInf NInf = False"
| "flt PInf PInf = False"
| "flt NInf _ = True"
| "flt _ PInf = True"
| "flt _ _ = False"

text \<open>\<open>np.sum\<close> of a one-dimensional array; the empty sum is 0.\<close>

primrec np_sum :: "fl list \<Rightarrow> fl" where
  "np_sum [] = Fin 0"
| "np_sum (x # xs) = fadd x (np_sum xs)"

section \<open>Tables\<close>

text \<open>
  A pandas DataFrame: the column labels and the rows of cells, top to bottom. The date
  index is left out: every series the program derives keeps the row order of the table it
  comes from, and no operation of the program aligns on dates.
\<close>

record dataframe =
  columns :: "string list"
  rows :: "fl list list"

text \<open>Every row has one cell per column.\<close>

definition frame_ok :: "dataframe \<Rightarrow> bool" where
  "frame_ok df = list_all (\<lambda>r. length r = length (columns df)) (rows df)"

text \<open>
  \<open>DataFrame.pct_change()\<close>: \<open>data / data.shift(1) - 1\<close>, where \<open>data\<close> is the table
  itself or, in the pandas versions whose default \<open>fill_method\<close> is still \<open>'pad'\<close>, the
  table with each missing cell replaced by the last present cell above it. The version in
  use is not fixed by the repository, so the fill is a parameter.
\<close>

datatype fill_method = Pad | NoFill

fun ffill_rows :: "fl list \<Rightarrow> fl list list \<Rightarrow> fl list list" where
  "ffill_rows prev [] = []"
| "ffill_rows prev (r # rs) =
     (let r' = map2 (\<lambda>c p. if isnan c then p else c) r prev in r' # ffill_rows r' rs)"

definition ffill :: "fl list list \<Rightarrow> fl list list" where
  "ffill rs = (case rs of [] \<Rightarrow> [] | r # rest \<Rightarrow> r # ffill_rows r rest)"

fun pct_rows :: "fl list \<Rightarrow> fl list list \<Rightarrow> fl list list" where
  "pct_rows prev [] = []"
| "pct_rows prev (r # rs) = map2 (\<lambda>c p. fsub (fdiv c p) (Fin 1)) r prev # pct_rows r rs"

definition pct_change :: "fill_method \<Rightarrow> dataframe \<Rightarrow> dataframe" where
  "pct_change fill df =
     (let data = (case fill of Pad \<Rightarrow> ffill (rows df) | NoFill \<Rightarrow> rows df)
      in df\<lparr>rows := (case data of [] \<Rightarrow> [] | r # rs \<Rightarrow> map (\<lambda>_. NaN) r # pct_rows r rs)\<rparr>)"

text \<open>\<open>DataFrame.dropna()\<close>: the rows with no missing cell, in order.\<close>

definition dropna :: "dataframe \<Rightarrow> dataframe" where
  "dropna df = df\<lparr>rows := filter (\<lambda>r. list_all (\<lambda>c. \<not> isnan c) r) (rows df)\<rparr>"

section \<open>Portfolio\<close>

record ticker_weight =
  ticker :: string
  weight :: real

type_synonym date = "nat \<times> nat \<times> nat"

text \<open>
  The market-data provider, \<open>yf.download(tickers, start, end, interval)['Adj Close']\<close>, is
  a library outside the repository: it is a parameter of the model.
\<close>

type_synonym provider = "string list \<Rightarrow> date \<Rightarrow> date \<Rightarrow> string \<Rightarrow> dataframe"

record portfolio =
  assets :: "ticker_weight list"
  start_date :: date
  end_date :: date
  rebalancing_frequency :: string
  tickers :: "string list"
  weights :: "fl list"
  market_data :: dataframe
  market_returns :: dataframe

definition get_market_data :: "provider \<Rightarrow> string list \<Rightarrow> date \<Rightarrow> date \<Rightarrow> string \<Rightarrow> dataframe" where
  "get_market_data download tks s e freq = download tks s e freq"

definition calculate_market_returns :: "fill_method \<Rightarrow> dataframe \<Rightarrow> dataframe" where
  "calculate_market_returns fill md = dropna (pct_change fill md)"

text \<open>
  The constructor of the dataclass followed by \<open>__post_init__\<close>. The division of the
  raw weights by their sum is numpy's: a zero sum yields infinities and \<open>NaN\<close>, not an
  exception.
\<close>

definition post_init ::
  "provider \<Rightarrow> fill_method \<Rightarrow> ticker_weight list \<Rightarrow> date \<Rightarrow> date \<Rightarrow> string \<Rightarrow> portfolio" where
  "post_init download fill as s e freq =
     (let tks = map ticker as;
          ws = map (\<lambda>a. Fin (weight a)) as;
          ws' = map (\<lambda>w. fdiv w (np_sum ws)) ws;
          md = get_market_data download tks s e freq
      in \<lparr>assets = as, start_date = s, end_date = e, rebalancing_frequency = freq,
          tickers = tks, weights = ws', market_data = md,
          market_returns = calculate_market_returns fill md\<rparr>)"

section \<open>Series statistics\<close>

text \<open>
  pandas reductions skip missing values. \<open>Series.mean()\<close> is the sum of the present
  values over their count, \<open>NaN\<close> when none is present.
\<close>

definition series_mean :: "fl list \<Rightarrow> fl" where
  "series_mean xs =
     (let ys = filter (\<lambda>x. \<not> isnan x) xs
      in if ys = [] then NaN else fdiv (np_sum ys) (Fin (real (length ys))))"

text \<open>
  \<open>Series.var()\<close> and \<open>Series.std()\<close> with the default \<open>ddof=1\<close>: with fewer than
  two present values the result is \<open>NaN\<close>; otherwise the squared deviations from the
  average, summed, over the count less one.
\<close>

definition series_var :: "fl list \<Rightarrow> fl" where
  "series_var xs =
     (let ys = filter (\<lambda>x. \<not> isnan x) xs; n = length ys
      in if n \<le> 1 then NaN
         else (let avg = fdiv (np_sum ys) (Fin (real n))
               in fdiv (np_sum (map (\<lambda>y. fmul (fsub avg y) (fsub avg y)) ys)) (Fin (real n - 1))))"

definition series_std :: "fl list \<Rightarrow> fl" where
  "series_std xs = fsqrt (series_var xs)"

text \<open>
  \<open>Series.cov(other)\<close>: the pairs with both values present; \<open>NaN\<close> with fewer than two
  pairs, otherwise numpy's covariance: the summed products of deviations times \<open>1 / (n - 1)\<close>.
\<close>

definition series_cov :: "fl list \<Rightarrow> fl list \<Rightarrow> fl" where
  "series_cov xs ys =
     (let ps = filter (\<lambda>(a, b). \<not> isnan a \<and> \<not> isnan b) (zip xs ys); n = length ps
      in if n \<le> 1 then NaN
         else (let ma = fdiv (np_sum (map fst ps)) (Fin (real n));
                   mb = fdiv (np_sum (map snd ps)) (Fin (real n))
               in fmul (np_sum (map (\<lambda>(a, b). fmul (fsub a ma) (fsub b mb)) ps))
                       (fdiv (Fin 1) (Fin (real n - 1)))))"

text \<open>
  \<open>Series.quantile(q)\<close>: a level outside \<open>[0, 1]\<close> raises \<open>ValueError\<close>; the missing
  values are dropped, and numpy interpolates linearly between the two order statistics
  around position \<open>q * (n - 1)\<close>.
\<close>

fun insort_fl :: "fl \<Rightarrow> fl list \<Rightarrow> fl list" where
  "insort_fl x [] = [x]"
| "insort_fl x (y # ys) = (if fle x y then x # y # ys else y # insort_fl x ys)"

primrec sort_fl :: "fl list \<Rightarrow> fl list" where
  "sort_fl [] = []"
| "sort_fl (x # xs) = insort_fl x (sort_fl xs)"

definition lerp :: "fl \<Rightarrow> fl \<Rightarrow> real \<Rightarrow> fl" where
  "lerp a b t =
     (if 1 / 2 \<le> t then fsub b (fmul (fsub b a) (Fin (1 - t)))
      else fadd a (fmul (fsub b a) (Fin t)))"

definition series_quantile :: "fl list \<Rightarrow> real \<Rightarrow> py_error + fl" where
  "series_quantile xs q =
     (if \<not> (0 \<le> q \<and> q \<le> 1) then Inl ValueError
      else (let ys = sort_fl (filter (\<lambda>x. \<not> isnan x) xs); n = length ys
            in if n = 0 then Inr NaN
               else (let h = q * (real n - 1); lo = nat \<lfloor>h\<rfloor>; hi = min (lo + 1) (n - 1)
                     in Inr (lerp (ys ! lo) (ys ! hi) (h - real lo)))))"

text \<open>\<open>(1 + s).cumprod()\<close>: the running product skips a missing value and leaves it missing.\<close>

fun cumprod_from :: "fl \<Rightarrow> fl list \<Rightarrow> fl list" where
  "cumprod_from acc [] = []"
| "cumprod_from acc (x # xs) =
     (if isnan x then NaN # cumprod_from acc xs
      else fmul acc x # cumprod_from (fmul acc x) xs)"

definition cumprod :: "fl list \<Rightarrow> fl list" where
  "cumprod xs = cumprod_from (Fin 1) xs"

text \<open>\<open>Series.diff()\<close>: the first entry is missing, each later one is the step from its predecessor.\<close>

fun diff_from :: "fl \<Rightarrow> fl list \<Rightarrow> fl list" where
  "diff_from prev [] = []"
| "diff_from prev (x # xs) = fsub x prev # diff_from x xs"

definition series_diff :: "fl list \<Rightarrow> fl list" where
  "series_diff xs = (case xs of [] \<Rightarrow> [] | x # rest \<Rightarrow> NaN # diff_from x rest)"

definition fillna :: "fl \<Rightarrow> fl list \<Rightarrow> fl list" where
  "fillna v xs = map (\<lambda>x. if isnan x then v else x) xs"

text \<open>
  \<open>df @ w\<close> for an array \<open>w\<close>: pandas raises \<open>ValueError\<close> unless the table has as many
  columns as \<open>w\<close> has entries; the result has one entry per row, the sum over the
  columns of cell times entry, by position.
\<close>

definition dot :: "fl list \<Rightarrow> fl list \<Rightarrow> fl" where
  "dot r w = np_sum (map2 fmul r w)"

definition frame_matmul :: "dataframe \<Rightarrow> fl list \<Rightarrow> py_error + fl list" where
  "frame_matmul df w =
     (if length (columns df) \<noteq> length w then Inl ValueError
      else Inr (map (\<lambda>r. dot r w) (rows df)))"

text \<open>\<open>df.std(axis=0)\<close>: one value per column; \<open>df.mean(axis=1)\<close>: one value per row.\<close>

definition frame_columns :: "dataframe \<Rightarrow> fl list list" where
  "frame_columns df = map (\<lambda>i. map (\<lambda>r. r ! i) (rows df)) [0..<length (columns df)]"

definition frame_std :: "dataframe \<Rightarrow> fl list" where
  "frame_std df = map series_std (frame_columns df)"

definition frame_row_mean :: "dataframe \<Rightarrow> fl list" where
  "frame_row_mean df = map series_mean (rows df)"

text \<open>
  A Series times an array multiplies by position, with numpy's broadcasting: equal
  lengths, or an array of one entry; any other pair of lengths raises \<open>ValueError\<close>.
\<close>

definition series_mul_array :: "fl list \<Rightarrow> fl list \<Rightarrow> py_error + fl list" where
  "series_mul_array s a =
     (if length a = length s then Inr (map2 fmul s a)
      else if length a = 1 then Inr (map (\<lambda>x. fmul x (hd a)) s)
      else Inl ValueError)"

section \<open>Portfolio metrics\<close>

definition asset_volatility_decomposition :: "portfolio \<Rightarrow> py_error + fl list" where
  "asset_volatility_decomposition p =
     (let asset_volatilities = frame_std (market_returns p)
      in series_mul_array asset_volatilities (weights p))"

definition portfolio_return_metrics ::
  "portfolio \<Rightarrow> py_error + (fl list \<times> fl list \<times> fl list \<times> fl list)" where
  "portfolio_return_metrics p =
     (case frame_matmul (market_returns p) (weights p) of
        Inl e \<Rightarrow> Inl e
      | Inr portfolio_returns \<Rightarrow>
          (let portfolio_value = cumprod (map (fadd (Fin 1)) portfolio_returns);
               cumulative_pnl = map (\<lambda>v. fsub v (Fin 1)) portfolio_value;
               pnl = fillna (Fin 0) (series_diff portfolio_value)
           in Inr (portfolio_returns, portfolio_value, cumulative_pnl, pnl)))"

text \<open>The result is (annualized std, beta, annualized Sharpe ratio, CVaR, Sortino ratio).\<close>

definition portfolio_volatility_metrics ::
  "portfolio \<Rightarrow> real \<Rightarrow> real \<Rightarrow> py_error + (fl \<times> fl \<times> fl \<times> fl \<times> fl)" where
  "portfolio_volatility_metrics p risk_free_rate alpha =
     (case portfolio_return_metrics p of
        Inl e \<Rightarrow> Inl e
      | Inr (portfolio_returns, _, _, _) \<Rightarrow>
          (let mkt = frame_row_mean (market_returns p);
               portfolio_beta = fdiv (series_cov portfolio_returns mkt) (series_var mkt)
           in case series_quantile portfolio_returns alpha of
                Inl e \<Rightarrow> Inl e
              | Inr portfolio_var \<Rightarrow>
                  (let portfolio_cvar = series_mean (filter (\<lambda>x. fle x portfolio_var) portfolio_returns);
                       portfolio_annualized_std =
                         fmul (fmul (series_std portfolio_returns) (Fin (sqrt 12))) (Fin 100);
                       annualized_sharpe_ratio =
                         fmul (fdiv (fsub (series_mean portfolio_returns) (Fin risk_free_rate))
                                    portfolio_annualized_std) (Fin (sqrt 12));
                       downside_returns = filter (\<lambda>x. flt x (Fin risk_free_rate)) portfolio_returns;
                       downside_std = (if downside_returns \<noteq> [] then series_std downside_returns else NaN);
                       sortino_ratio =
                         (if \<not> isnan downside_std
                          then fdiv (fsub (series_mean portfolio_returns) (Fin risk_free_rate)) downside_std
                          else NaN)
                   in Inr (portfolio_annualized_std, portfolio_beta, annualized_sharpe_ratio,
                           portfolio_cvar, sortino_ratio))))"

section \<open>Sensitivity sweep\<close>

text \<open>\<open>np.arange(start, stop, step)\<close>: \<open>ceil((stop - start) / step)\<close> values \<open>start + i * step\<close>.\<close>

definition np_arange :: "real \<Rightarrow> real \<Rightarrow> real \<Rightarrow> real list" where
  "np_arange start stop step =
     map (\<lambda>i. start + real i * step) [0..<nat \<lceil>(stop - start) / step\<rceil>]"

definition sweep_assets :: "real \<Rightarrow> ticker_weight list" where
  "sweep_assets tips_allocation =
     map2 (\<lambda>t w. \<lparr>ticker = t, weight = w\<rparr>) [''SPY'', ''AGG'', ''TIP'']
       [6 / 10, 4 / 10 - tips_allocation, tips_allocation]"

definition sweep_portfolios :: "provider \<Rightarrow> fill_method \<Rightarrow> date \<Rightarrow> date \<Rightarrow> portfolio list" where
  "sweep_portfolios download fill s e =
     map (\<lambda>tips_allocation. post_init download fill (sweep_assets tips_allocation) s e ''1mo'')
       (np_arange 0 (21 / 100) (5 / 100))"

text \<open>\<open>series.iloc[-1]\<close> raises \<open>IndexError\<close> on an empty series.\<close>

definition iloc_last :: "fl list \<Rightarrow> py_error + fl" where
  "iloc_last xs = (if xs = [] then Inl IndexError else Inr (last xs))"

text \<open>
  The second loop of \<open>plot_sensitivity_analysis\<close>; the five lists are
  (sharpe_ratios, cvars, sortino_ratios, portfolio_values, net_returns).
\<close>

fun collect_metrics ::
  "portfolio list \<Rightarrow> py_error + (fl list \<times> fl list \<times> fl list \<times> fl list list \<times> fl list)" where
  "collect_metrics [] = Inr ([], [], [], [], [])"
| "collect_metrics (p # ps) =
     (case portfolio_return_metrics p of
        Inl e \<Rightarrow> Inl e
      | Inr (_, portfolio_value, _, _) \<Rightarrow>
          (case portfolio_volatility_metrics p 0 (5 / 100) of
             Inl e \<Rightarrow> Inl e
           | Inr (_, _, sharpe_ratio, cvar, sortino_ratio) \<Rightarrow>
               (case iloc_last portfolio_value of
                  Inl e \<Rightarrow> Inl e
                | Inr net_return \<Rightarrow>
                    (case collect_metrics ps of
                       Inl e \<Rightarrow> Inl e
                     | Inr (sharpe_ratios, cvars, sortino_ratios, portfolio_values, net_returns) \<Rightarrow>
                         Inr (sharpe_ratio # sharpe_ratios, cvar # cvars,
                              sortino_ratio # sortino_ratios,
                              portfolio_value # portfolio_values,
                              net_return # net_returns)))))"

text \<open>
  \<open>plot_sensitivity_analysis\<close> up to the lists it plots. \<open>date.fromisoformat\<close> belongs
  to the Python library and is a parameter.
\<close>

definition plot_sensitivity_analysis ::
  "(string \<Rightarrow> py_error + date) \<Rightarrow> provider \<Rightarrow> fill_method \<Rightarrow> string \<Rightarrow> string
   \<Rightarrow> py_error + (fl list \<times> fl list \<times> fl list \<times> fl list list \<times> fl list)" where
  "plot_sensitivity_analysis fromisoformat download fill start_date_str end_date_str =
     (case fromisoformat start_date_str of
        Inl e \<Rightarrow> Inl e
      | Inr s \<Rightarrow>
          (case fromisoformat end_date_str of
             Inl e \<Rightarrow> Inl e
           | Inr e \<Rightarrow> collect_metrics (sweep_portfolios download fill s e)))"

section \<open>Statistics in the words of the specification\<close>

text \<open>
  The mean and the sample standard deviation of a series of real numbers, as the
  specification names them; the theorems compare them with what pandas computes.
\<close>

definition real_mean :: "real list \<Rightarrow> real" where
  "real_mean ys = sum_list ys / real (length ys)"

definition sample_std :: "real list \<Rightarrow> real" where
  "sample_std ys = sqrt ((\<Sum>y\<leftarrow>ys. (y - real_mean ys)\<^sup>2) / (real (length ys) - 1))"


section \<open>Reading tables and results\<close>

text \<open>A price cell that is present, finite and not zero.\<close>

fun is_price :: "fl \<Rightarrow> bool" where
  "is_price (Fin x) = (x \<noteq> 0)"
| "is_price _ = False"

definition priced :: "dataframe \<Rightarrow> bool" where
  "priced df = list_all (list_all is_price) (rows df)"

text \<open>\<open>df[name]\<close>: the column with the given label (the first one), if there is one.\<close>

fun index_of :: "'a \<Rightarrow> 'a list \<Rightarrow> nat option" where
  "index_of x [] = None"
| "index_of x (y # ys) = (if x = y then Some 0 else map_option Suc (index_of x ys))"

definition column_named :: "dataframe \<Rightarrow> string \<Rightarrow> fl list option" where
  "column_named df name =
     map_option (\<lambda>i. map (\<lambda>r. r ! i) (rows df)) (index_of name (columns df))"

text \<open>The fifth component of the volatility metrics, the Sortino ratio.\<close>

definition sortino_of :: "py_error + (fl \<times> fl \<times> fl \<times> fl \<times> fl) \<Rightarrow> py_error + fl" where
  "sortino_of res = map_sum id (\<lambda>(std, beta, sharpe, cvar, sortino). sortino) res"

section \<open>Example data\<close>

text \<open>Two tickers over four dates (the end-to-end scenario of the specification).\<close>

definition two_assets :: dataframe where
  "two_assets = \<lparr>columns = [''A'', ''B''],
     rows = [[Fin 100, Fin 50], [Fin 101, Fin (101 / 2)], [Fin 102, Fin 51], [Fin 101, Fin (101 / 2)]]\<rparr>"

definition two_assets_portfolio :: portfolio where
  "two_assets_portfolio =
     post_init (\<lambda>_ _ _ _. two_assets) Pad
       [\<lparr>ticker = ''A'', weight = 6 / 10\<rparr>, \<lparr>ticker = ''B'', weight = 4 / 10\<rparr>]
       (2021, 1, 1) (2021, 5, 1) ''1mo''"

text \<open>Two tickers that grow by 10 and by 20 per cent on every date.\<close>

definition constant_growth :: dataframe where
  "constant_growth = \<lparr>columns = [''A'', ''B''],
     rows = [[Fin 100, Fin 50], [Fin 110, Fin 60], [Fin 121, Fin 72]]\<rparr>"

definition constant_growth_portfolio :: portfolio where
  "constant_growth_portfolio =
     post_init (\<lambda>_ _ _ _. constant_growth) Pad
       [\<lparr>ticker = ''A'', weight = 3\<rparr>, \<lparr>ticker = ''B'', weight = 2\<rparr>]
       (2021, 1, 1) (2021, 4, 1) ''1mo''"

text \<open>A table whose first column has no price on the first date.\<close>

definition late_listing :: dataframe where
  "late_listing = \<lparr>columns = [''AGG'', ''SPY''],
     rows = [[NaN, Fin 100], [Fin 50, Fin 101], [Fin 51, Fin 102]]\<rparr>"

definition late_listing_portfolio :: "fill_method \<Rightarrow> portfolio" where
  "late_listing_portfolio fill =
     post_init (\<lambda>_ _ _ _. late_listing) fill
       [\<lparr>ticker = ''AGG'', weight = 4 / 10\<rparr>, \<lparr>ticker = ''SPY'', weight = 6 / 10\<rparr>]
       (2021, 1, 1) (2023, 12, 31) ''1mo''"

text \<open>Prices 2, 4, 2 of one ticker: the returns are 1 and -1/2.\<close>

definition up_down :: dataframe where
  "up_down = \<lparr>columns = [''SPY''], rows = [[Fin 2], [Fin 4], [Fin 2]]\<rparr>"

definition up_down_portfolio :: portfolio where
  "up_down_portfolio =
     post_init (\<lambda>_ _ _ _. up_down) Pad [\<lparr>ticker = ''SPY'', weight = 1\<rparr>]
       (2021, 1, 1) (2021, 4, 1) ''1mo''"

text \<open>Prices 64, 48, 24, 6, 12 of one ticker: the returns are -1/4, -1/2, -3/4 and 1.\<close>

definition slump :: dataframe where
  "slump = \<lparr>columns = [''SPY''], rows = [[Fin 64], [Fin 48], [Fin 24], [Fin 6], [Fin 12]]\<rparr>"

definition slump_portfolio :: portfolio where
  "slump_portfolio =
     post_init (\<lambda>_ _ _ _. slump) Pad [\<lparr>ticker = ''SPY'', weight = 1\<rparr>]
       (2021, 1, 1) (2021, 6, 1) ''1mo''"

text \<open>Prices 2, 2, 3, 6 of one ticker: the returns are 0, 1/2 and 1.\<close>

definition climb :: dataframe where
  "climb = \<lparr>columns = [''SPY''], rows = [[Fin 2], [Fin 2], [Fin 3], [Fin 6]]\<rparr>"

definition climb_portfolio :: portfolio where
  "climb_portfolio =
     post_init (\<lambda>_ _ _ _. climb) Pad [\<lparr>ticker = ''SPY'', weight = 1\<rparr>]
       (2021, 1, 1) (2021, 5, 1) ''1mo''"



text \<open>
  Prices of two tickers over four dates, the columns in alphabetical order: AGG has the
  returns -1/4, 0, 1/4 and SPY the returns -1/2, 0, 1/2.
\<close>

definition agg_spy :: dataframe where
  "agg_spy = \<lparr>columns = [''AGG'', ''SPY''],
     rows = [[Fin 4, Fin 4], [Fin 3, Fin 2], [Fin 3, Fin 2], [Fin (15 / 4), Fin 3]]\<rparr>"

text \<open>The first portfolio of the repository's scripts, on a provider that answers with \<open>agg_spy\<close>.\<close>

definition spy_agg_portfolio :: portfolio where
  "spy_agg_portfolio =
     post_init (\<lambda>_ _ _ _. agg_spy) Pad
       [\<lparr>ticker = ''SPY'', weight = 6 / 10\<rparr>, \<lparr>ticker = ''AGG'', weight = 4 / 10\<rparr>]
       (2021, 1, 1) (2023, 12, 31) ''1mo''"

text \<open>The same assets listed in the order of the provider's columns.\<close>

definition agg_spy_portfolio :: portfolio where
  "agg_spy_portfolio =
     post_init (\<lambda>_ _ _ _. agg_spy) Pad
       [\<lparr>ticker = ''AGG'', weight = 4 / 10\<rparr>, \<lparr>ticker = ''SPY'', weight = 6 / 10\<rparr>]
       (2021, 1, 1) (2023, 12, 31) ''1mo''"

text \<open>
  Prices of the three tickers of the sweep on two dates: SPY and AGG double, TIP
  triples, so the returns are 1, 1 and 2.
\<close>

definition three_assets :: dataframe where
  "three_assets = \<lparr>columns = [''SPY'', ''AGG'', ''TIP''],
     rows = [[Fin 1, Fin 1, Fin 1], [Fin 2, Fin 2, Fin 3]]\<rparr>"

text \<open>A stand-in for \<open>date.fromisoformat\<close> on the two dates of the repository's script.\<close>

definition iso_dates :: "string \<Rightarrow> py_error + date" where
  "iso_dates str =
     (if str = ''2021-01-01'' then Inr (2021, 1, 1)
      else if str = ''2023-12-31'' then Inr (2023, 12, 31)
      else Inl ValueError)"

text \<open>
  Two tickers over three dates; the first has the price 0 on the first date, so its first
  return is infinite.
\<close>

definition zero_start :: dataframe where
  "zero_start = \<lparr>columns = [''A'', ''B''],
     rows = [[Fin 0, Fin 1], [Fin 5, Fin 2], [Fin 10, Fin 4]]\<rparr>"

definition zero_start_portfolio :: "fill_method \<Rightarrow> portfolio" where
  "zero_start_portfolio fill =
     post_init (\<lambda>_ _ _ _. zero_start) fill
       [\<lparr>ticker = ''A'', weight = 0\<rparr>, \<lparr>ticker = ''B'', weight = 1\<rparr>]
       (2021, 1, 1) (2021, 4, 1) ''1mo''"

section \<open>Facts about finite numbers\<close>

lemma np_sum_Fin: "np_sum (map Fin xs) = Fin (sum_list xs)"
  by (induction xs) simp_all

lemma np_sum_weights: "np_sum (map (\<lambda>a. Fin (weight a)) as) = Fin (sum_list (map weight as))"
  by (induction as) simp_all


section \<open>Normalised weights\<close>



section \<open>Rows of the returns table\<close>

lemma is_price_notnan: "is_price c \<Longrightarrow> \<not> isnan c"
  by (cases c) simp_all

lemma ffill_row_price:
  "list_all is_price r \<Longrightarrow> list_all is_price (map2 (\<lambda>c p. if isnan c then p else c) r prev)"
proof (induction r arbitrary: prev)
  case Nil
  then show ?case by simp
next
  case (Cons c r)
  then show ?case by (cases prev) (simp_all add: is_price_notnan)
qed

lemma ffill_rows_price:
  "list_all (list_all is_price) rs \<Longrightarrow>
   list_all (list_all is_price) (ffill_rows prev rs) \<and> length (ffill_rows prev rs) = length rs"
  by (induction rs arbitrary: prev) (simp_all add: Let_def ffill_row_price)

lemma ffill_price:
  "list_all (list_all is_price) rs \<Longrightarrow>
   list_all (list_all is_price) (ffill rs) \<and> length (ffill rs) = length rs \<and>
   (rs \<noteq> [] \<longrightarrow> hd (ffill rs) = hd rs)"
  by (cases rs) (simp_all add: ffill_def ffill_rows_price)

lemma pct_row_notnan:
  "list_all is_price r \<Longrightarrow> list_all is_price prev \<Longrightarrow>
   list_all (\<lambda>c. \<not> isnan c) (map2 (\<lambda>c p. fsub (fdiv c p) (Fin 1)) r prev)"
proof (induction r arbitrary: prev)
  case Nil
  then show ?case by simp
next
  case (Cons c r)
  show ?case
  proof (cases prev)
    case Nil
    then show ?thesis by simp
  next
    case (Cons q prev')
    with Cons.prems obtain x y where "c = Fin x" "q = Fin y" "y \<noteq> 0"
      by (cases c; cases q) simp_all
    with Cons.prems Cons.IH [of prev'] Cons show ?thesis
      by (simp add: fsub_def)
  qed
qed

lemma pct_rows_kept:
  "list_all is_price prev \<Longrightarrow> list_all (list_all is_price) rs \<Longrightarrow>
   filter (\<lambda>r. list_all (\<lambda>c. \<not> isnan c) r) (pct_rows prev rs) = pct_rows prev rs"
  by (induction rs arbitrary: prev) (simp_all add: pct_row_notnan)

lemma length_pct_rows: "length (pct_rows prev rs) = length rs"
  by (induction rs arbitrary: prev) simp_all

lemma returns_of_priced:
  assumes "list_all (list_all is_price) data" "data \<noteq> []" "hd data \<noteq> []"
  shows "length (filter (\<lambda>r. list_all (\<lambda>c. \<not> isnan c) r)
           (case data of [] \<Rightarrow> [] | r # rs \<Rightarrow> map (\<lambda>_. NaN) r # pct_rows r rs)) = length data - 1"
proof -
  from assms obtain r rs where d: "data = r # rs" by (cases data) auto
  with assms have "r \<noteq> []" by simp
  then have "\<not> list_all (\<lambda>c. \<not> isnan c) (map (\<lambda>_. NaN) r)" by (cases r) simp_all
  with assms d show ?thesis
    by (simp add: pct_rows_kept length_pct_rows)
qed

lemma calculate_market_returns_length:
  assumes "frame_ok md" "columns md \<noteq> []" "rows md \<noteq> []" "priced md"
  shows "length (rows (calculate_market_returns fill md)) = length (rows md) - 1"
proof -
  define data where "data = (case fill of Pad \<Rightarrow> ffill (rows md) | NoFill \<Rightarrow> rows md)"
  from assms have hd: "hd (rows md) \<noteq> []"
    by (cases "rows md") (auto simp: frame_ok_def)
  from assms ffill_price [of "rows md"] have
    "list_all (list_all is_price) data" "data \<noteq> []" "hd data = hd (rows md)" "length data = length (rows md)"
    by (cases fill; auto simp: data_def priced_def)+
  with hd returns_of_priced [of data] show ?thesis
    by (simp add: calculate_market_returns_def dropna_def pct_change_def data_def [symmetric] Let_def)
qed

text \<open>
  Claim C4, as stated: the returns table has one row fewer than the price table, for
  every table of the provider, missing values included. It fails on a table whose first
  column starts one date late: of three price rows a single return row is left, under
  either fill convention of \<open>pct_change\<close>.
\<close>

theorem market_returns_one_fewer_counterexample:
  "length (rows (market_data (late_listing_portfolio Pad))) = 3
   \<and> length (rows (market_returns (late_listing_portfolio Pad))) = 1
   \<and> length (rows (market_data (late_listing_portfolio NoFill))) = 3
   \<and> length (rows (market_returns (late_listing_portfolio NoFill))) = 1"
  by (simp add: late_listing_portfolio_def post_init_def get_market_data_def
      calculate_market_returns_def dropna_def pct_change_def ffill_def late_listing_def
      fsub_def Let_def)

text \<open>
  Claim C4, amended: when the provider's table has at least one row and one column and
  every cell is a present, finite, nonzero price, the portfolio's returns table has
  exactly one row fewer than its price table.
\<close>

theorem market_returns_one_fewer:
  assumes "p = post_init download fill as s e freq"
    and "frame_ok (market_data p)" and "columns (market_data p) \<noteq> []"
    and "rows (market_data p) \<noteq> []" and "priced (market_data p)"
  shows "length (rows (market_returns p)) = length (rows (market_data p)) - 1"
proof -
  from assms(1) have "market_returns p = calculate_market_returns fill (market_data p)"
    by (simp add: post_init_def Let_def)
  with assms(2-) calculate_market_returns_length [of "market_data p" fill] show ?thesis
    by simp
qed

theorem market_returns_one_fewer_witness:
  "frame_ok (market_data (post_init (\<lambda>_ _ _ _. two_assets) Pad
      [\<lparr>ticker = ''A'', weight = 6 / 10\<rparr>, \<lparr>ticker = ''B'', weight = 4 / 10\<rparr>]
      (2021, 1, 1) (2021, 5, 1) ''1mo''))
   \<and> priced (market_data (post_init (\<lambda>_ _ _ _. two_assets) Pad
      [\<lparr>ticker = ''A'', weight = 6 / 10\<rparr>, \<lparr>ticker = ''B'', weight = 4 / 10\<rparr>]
      (2021, 1, 1) (2021, 5, 1) ''1mo''))
   \<and> length (rows (market_data (post_init (\<lambda>_ _ _ _. two_assets) Pad
      [\<lparr>ticker = ''A'', weight = 6 / 10\<rparr>, \<lparr>ticker = ''B'', weight = 4 / 10\<rparr>]
      (2021, 1, 1) (2021, 5, 1) ''1mo''))) = 4
   \<and> length (rows (market_returns (post_init (\<lambda>_ _ _ _. two_assets) Pad
      [\<lparr>ticker = ''A'', weight = 6 / 10\<rparr>, \<lparr>ticker = ''B'', weight = 4 / 10\<rparr>]
      (2021, 1, 1) (2021, 5, 1) ''1mo''))) = 3"
proof -
  define p where "p = post_init (\<lambda>_ _ _ _. two_assets) Pad
      [\<lparr>ticker = ''A'', weight = 6 / 10\<rparr>, \<lparr>ticker = ''B'', weight = 4 / 10\<rparr>]
      (2021, 1, 1) (2021, 5, 1) ''1mo''"
  have md: "market_data p = two_assets"
    by (simp add: p_def post_init_def get_market_data_def Let_def)
  have h: "frame_ok (market_data p)" "columns (market_data p) \<noteq> []"
    "rows (market_data p) \<noteq> []" "priced (market_data p)"
    by (simp_all add: md two_assets_def frame_ok_def priced_def)
  have "length (rows (market_data p)) = 4"
    by (simp add: md two_assets_def)
  with h market_returns_one_fewer [OF p_def h] show ?thesis
    unfolding p_def by simp
qed

section \<open>Arithmetic and series lemmas\<close>

lemma fmul_commute: "fmul a b = fmul b a"
  by (cases a; cases b) (simp_all add: mult.commute)

lemma fmul_one: "fmul (Fin 1) x = x"
  by (cases x) (simp_all add: inf_of_sign_def)

lemma is_fin_notnan: "is_fin x \<Longrightarrow> \<not> isnan x"
  by (cases x) simp_all

lemma is_fin_fadd: "is_fin a \<Longrightarrow> is_fin b \<Longrightarrow> is_fin (fadd a b)"
  by (cases a; cases b) simp_all

lemma is_fin_fsub: "is_fin a \<Longrightarrow> is_fin b \<Longrightarrow> is_fin (fsub a b)"
  by (cases a; cases b) (simp_all add: fsub_def)

lemma is_fin_fmul: "is_fin a \<Longrightarrow> is_fin b \<Longrightarrow> is_fin (fmul a b)"
  by (cases a; cases b) simp_all

lemma is_fin_np_sum: "list_all is_fin xs \<Longrightarrow> is_fin (np_sum xs)"
  by (induction xs) (simp_all add: is_fin_fadd)

lemma is_fin_map2_fmul: "list_all is_fin r \<Longrightarrow> list_all is_fin w \<Longrightarrow> list_all is_fin (map2 fmul r w)"
proof (induction r arbitrary: w)
  case Nil
  then show ?case by simp
next
  case (Cons c r)
  then show ?case by (cases w) (simp_all add: is_fin_fmul)
qed

lemma is_fin_dot: "list_all is_fin r \<Longrightarrow> list_all is_fin w \<Longrightarrow> is_fin (dot r w)"
  by (simp add: dot_def is_fin_np_sum is_fin_map2_fmul)

lemma map2_nth:
  "length xs = length ys \<Longrightarrow> map2 f xs ys = map (\<lambda>i. f (xs ! i) (ys ! i)) [0..<length ys]"
  by (rule nth_equalityI) simp_all

lemma dot_indexed:
  "length r = length w \<Longrightarrow> dot r w = np_sum (map (\<lambda>i. fmul (w ! i) (r ! i)) [0..<length w])"
  by (simp add: dot_def map2_nth fmul_commute [of "r ! _"])

lemma length_cumprod_from: "length (cumprod_from acc xs) = length xs"
  by (induction xs arbitrary: acc) simp_all

lemma cumprod_from_fin:
  "is_fin acc \<Longrightarrow> list_all is_fin xs \<Longrightarrow> list_all is_fin (cumprod_from acc xs)"
  by (induction xs arbitrary: acc) (simp_all add: is_fin_fmul is_fin_notnan)

lemma cumprod_from_0:
  "xs \<noteq> [] \<Longrightarrow> \<not> isnan (xs ! 0) \<Longrightarrow> cumprod_from acc xs ! 0 = fmul acc (xs ! 0)"
  by (cases xs) simp_all

lemma cumprod_from_step:
  "list_all (\<lambda>x. \<not> isnan x) xs \<Longrightarrow> Suc t < length xs \<Longrightarrow>
   cumprod_from acc xs ! Suc t = fmul (cumprod_from acc xs ! t) (xs ! Suc t)"
proof (induction xs arbitrary: acc t)
  case Nil
  then show ?case by simp
next
  case (Cons x xs)
  show ?case
  proof (cases t)
    case 0
    with Cons.prems show ?thesis by (cases xs) simp_all
  next
    case (Suc t')
    with Cons.prems Cons.IH [of t' "fmul acc x"] show ?thesis by simp
  qed
qed

lemma length_diff_from: "length (diff_from prev xs) = length xs"
  by (induction xs arbitrary: prev) simp_all

lemma diff_from_nth:
  "t < length xs \<Longrightarrow> diff_from prev xs ! t = fsub (xs ! t) (if t = 0 then prev else xs ! (t - 1))"
proof (induction xs arbitrary: prev t)
  case Nil
  then show ?case by simp
next
  case (Cons x xs)
  show ?case
  proof (cases t)
    case 0
    then show ?thesis by simp
  next
    case (Suc t')
    with Cons.prems Cons.IH [of t' x] show ?thesis by (cases t') simp_all
  qed
qed

lemma length_series_diff: "length (series_diff xs) = length xs"
  by (cases xs) (simp_all add: series_diff_def length_diff_from)

lemma series_diff_0: "xs \<noteq> [] \<Longrightarrow> series_diff xs ! 0 = NaN"
  by (cases xs) (simp_all add: series_diff_def)

lemma series_diff_step:
  "Suc t < length xs \<Longrightarrow> series_diff xs ! Suc t = fsub (xs ! Suc t) (xs ! t)"
proof (cases xs)
  case Nil
  assume "Suc t < length xs"
  with Nil show ?thesis by simp
next
  case (Cons x rest)
  assume "Suc t < length xs"
  with Cons diff_from_nth [of t rest x] show ?thesis
    by (cases t) (simp_all add: series_diff_def)
qed

section \<open>Return metrics\<close>

lemma constant_growth_weights: "weights constant_growth_portfolio = [Fin (3 / 5), Fin (2 / 5)]"
  by (simp add: constant_growth_portfolio_def post_init_def Let_def)

lemma constant_growth_returns:
  "market_returns constant_growth_portfolio =
     \<lparr>columns = [''A'', ''B''], rows = [[Fin (1 / 10), Fin (1 / 5)], [Fin (1 / 10), Fin (1 / 5)]]\<rparr>"
  by (simp add: constant_growth_portfolio_def post_init_def get_market_data_def
      calculate_market_returns_def dropna_def pct_change_def ffill_def constant_growth_def
      fsub_def Let_def)

text \<open>
  Claim C2. When the returns table has one column per weight, \<open>portfolio_return_metrics\<close>
  returns, and its return series has one entry per row of the table: the sum over the
  assets of weight times that asset's return on the row. In particular, with two assets of
  weights \<open>w1\<close>, \<open>w2\<close> and the same returns \<open>r1\<close>, \<open>r2\<close> on every row, every entry is
  \<open>w1 * r1 + w2 * r2\<close>.
\<close>

theorem portfolio_returns_weighted_sum:
  assumes ok: "frame_ok (market_returns p)"
    and dims: "length (columns (market_returns p)) = length (weights p)"
  shows "\<exists>r v c pnl. portfolio_return_metrics p = Inr (r, v, c, pnl)
     \<and> length r = length (rows (market_returns p))
     \<and> (\<forall>t<length r. r ! t =
           np_sum (map (\<lambda>i. fmul (weights p ! i) (rows (market_returns p) ! t ! i))
             [0..<length (weights p)]))
     \<and> (\<forall>w1 w2 r1 r2. weights p = [Fin w1, Fin w2]
           \<and> (\<forall>t<length r. rows (market_returns p) ! t = [Fin r1, Fin r2])
           \<longrightarrow> (\<forall>t<length r. r ! t = Fin (w1 * r1 + w2 * r2)))"
proof -
  define r where "r = map (\<lambda>row. dot row (weights p)) (rows (market_returns p))"
  from dims obtain v c pnl where m: "portfolio_return_metrics p = Inr (r, v, c, pnl)"
    by (simp add: portfolio_return_metrics_def frame_matmul_def r_def Let_def)
  have len: "length r = length (rows (market_returns p))"
    by (simp add: r_def)
  have sum: "r ! t = np_sum (map (\<lambda>i. fmul (weights p ! i) (rows (market_returns p) ! t ! i))
             [0..<length (weights p)])" if "t < length r" for t
  proof -
    from that len have "rows (market_returns p) ! t \<in> set (rows (market_returns p))" by simp
    with ok dims have "length (rows (market_returns p) ! t) = length (weights p)"
      by (simp add: frame_ok_def list_all_iff)
    with that len show ?thesis
      by (simp add: r_def dot_indexed)
  qed
  have two: "r ! t = Fin (w1 * r1 + w2 * r2)"
    if "weights p = [Fin w1, Fin w2]" "\<forall>t<length r. rows (market_returns p) ! t = [Fin r1, Fin r2]"
      "t < length r" for w1 w2 r1 r2 t
    using that sum [of t] by (simp add: upt_rec [of 0] upt_rec [of 1] numeral_2_eq_2)
  from m len sum two show ?thesis by blast
qed

theorem portfolio_returns_weighted_sum_witness:
  "frame_ok (market_returns constant_growth_portfolio)
   \<and> length (columns (market_returns constant_growth_portfolio)) = length (weights constant_growth_portfolio)
   \<and> weights constant_growth_portfolio = [Fin (3 / 5), Fin (2 / 5)]
   \<and> rows (market_returns constant_growth_portfolio) = [[Fin (1 / 10), Fin (1 / 5)], [Fin (1 / 10), Fin (1 / 5)]]
   \<and> (\<exists>v c pnl. portfolio_return_metrics constant_growth_portfolio =
         Inr ([Fin (3 / 5 * (1 / 10) + 2 / 5 * (1 / 5)), Fin (3 / 5 * (1 / 10) + 2 / 5 * (1 / 5))], v, c, pnl))"
proof -
  let ?p = constant_growth_portfolio
  have ok: "frame_ok (market_returns ?p)"
    by (simp add: constant_growth_returns frame_ok_def)
  have dims: "length (columns (market_returns ?p)) = length (weights ?p)"
    by (simp add: constant_growth_returns constant_growth_weights)
  from portfolio_returns_weighted_sum [OF ok dims] obtain r v c pnl where
    m: "portfolio_return_metrics ?p = Inr (r, v, c, pnl)"
    and len: "length r = length (rows (market_returns ?p))"
    and two: "\<forall>w1 w2 r1 r2. weights ?p = [Fin w1, Fin w2]
           \<and> (\<forall>t<length r. rows (market_returns ?p) ! t = [Fin r1, Fin r2])
           \<longrightarrow> (\<forall>t<length r. r ! t = Fin (w1 * r1 + w2 * r2))"
    by blast
  from len have l2: "length r = 2" by (simp add: constant_growth_returns)
  have "\<forall>t<length r. rows (market_returns ?p) ! t = [Fin (1 / 10), Fin (1 / 5)]"
    by (simp add: l2 constant_growth_returns less_Suc_eq numeral_2_eq_2)
  with two constant_growth_weights
  have "\<forall>t<length r. r ! t = Fin (3 / 5 * (1 / 10) + 2 / 5 * (1 / 5))" by blast
  with l2 have "r = [Fin (3 / 5 * (1 / 10) + 2 / 5 * (1 / 5)), Fin (3 / 5 * (1 / 10) + 2 / 5 * (1 / 5))]"
    by (intro nth_equalityI) (auto simp: less_Suc_eq numeral_2_eq_2)
  with m ok dims show ?thesis
    by (simp add: constant_growth_returns constant_growth_weights)
qed

section \<open>Shape of the returns table\<close>

lemma length_map2_same: "length r = k \<Longrightarrow> length prev = k \<Longrightarrow> length (map2 f r prev) = k"
  by simp

lemma ffill_rows_ok:
  "length prev = k \<Longrightarrow> list_all (\<lambda>r. length r = k) rs \<Longrightarrow>
   list_all (\<lambda>r. length r = k) (ffill_rows prev rs)"
  by (induction rs arbitrary: prev) (simp_all add: Let_def)

lemma pct_rows_ok:
  "length prev = k \<Longrightarrow> list_all (\<lambda>r. length r = k) rs \<Longrightarrow>
   list_all (\<lambda>r. length r = k) (pct_rows prev rs)"
  by (induction rs arbitrary: prev) simp_all

lemma ffill_ok: "list_all (\<lambda>r. length r = k) rs \<Longrightarrow> list_all (\<lambda>r. length r = k) (ffill rs)"
  by (cases rs) (simp_all add: ffill_def ffill_rows_ok)

lemma shifted_ok:
  "list_all (\<lambda>r. length r = k) data \<Longrightarrow>
   list_all (\<lambda>r. length r = k) (case data of [] \<Rightarrow> [] | r # rs \<Rightarrow> map (\<lambda>_. NaN) r # pct_rows r rs)"
  by (cases data) (simp_all add: pct_rows_ok)

lemma frame_ok_calculate_market_returns:
  assumes "frame_ok md"
  shows "frame_ok (calculate_market_returns fill md)"
    and "columns (calculate_market_returns fill md) = columns md"
proof -
  define data where "data = (case fill of Pad \<Rightarrow> ffill (rows md) | NoFill \<Rightarrow> rows md)"
  from assms have "list_all (\<lambda>r. length r = length (columns md)) data"
    by (cases fill) (simp_all add: data_def frame_ok_def ffill_ok)
  then have "list_all (\<lambda>r. length r = length (columns md))
      (case data of [] \<Rightarrow> [] | r # rs \<Rightarrow> map (\<lambda>_. NaN) r # pct_rows r rs)"
    by (rule shifted_ok)
  then show "frame_ok (calculate_market_returns fill md)"
    by (simp add: calculate_market_returns_def dropna_def pct_change_def frame_ok_def
        data_def [symmetric] Let_def list_all_iff)
  show "columns (calculate_market_returns fill md) = columns md"
    by (simp add: calculate_market_returns_def dropna_def pct_change_def Let_def)
qed

lemma is_fin_returns:
  assumes "list_all is_fin w" "list_all (list_all is_fin) rs"
  shows "list_all is_fin (map (\<lambda>row. dot row w) rs)"
  using assms by (induction rs) (simp_all add: is_fin_dot)

lemma return_metrics_cases:
  assumes "portfolio_return_metrics p = Inr (r, v, c, pnl)"
  shows "r = map (\<lambda>row. dot row (weights p)) (rows (market_returns p))"
    and "v = cumprod (map (fadd (Fin 1)) r)"
    and "c = map (\<lambda>x. fsub x (Fin 1)) v"
    and "pnl = fillna (Fin 0) (series_diff v)"
  using assms
  by (auto simp: portfolio_return_metrics_def frame_matmul_def Let_def split: if_splits)

text \<open>
  Claim C3, as stated: the identities hold for every portfolio with a non-empty return
  series. They fail when a return is not a number. On prices 0, 5, 10 and 1, 2, 4 with the
  weights 0 and 1 the first return of the first ticker is infinite, and 0 times infinity
  makes the first portfolio return \<open>NaN\<close>. The running product skips it, so the second
  value is 2 and not the first value (\<open>NaN\<close>) times 2; the step of the value is \<open>NaN\<close>
  and \<open>fillna(0)\<close> reports the P&L 0.
\<close>

theorem return_metrics_identities_counterexample:
  "portfolio_return_metrics (zero_start_portfolio Pad) =
     Inr ([NaN, Fin 1], [NaN, Fin 2], [NaN, Fin 1], [Fin 0, Fin 0])
   \<and> portfolio_return_metrics (zero_start_portfolio NoFill) =
     Inr ([NaN, Fin 1], [NaN, Fin 2], [NaN, Fin 1], [Fin 0, Fin 0])
   \<and> fmul NaN (fadd (Fin 1) (Fin 1)) \<noteq> Fin 2
   \<and> fsub (Fin 2) NaN \<noteq> Fin 0"
  by (simp add: zero_start_portfolio_def post_init_def get_market_data_def
      calculate_market_returns_def dropna_def pct_change_def ffill_def zero_start_def
      portfolio_return_metrics_def frame_matmul_def dot_def cumprod_def series_diff_def
      fillna_def fsub_def inf_of_sign_def Let_def)

text \<open>
  Claim C3, amended. For every portfolio whose return series is non-empty and holds only
  finite numbers, the four series of \<open>portfolio_return_metrics\<close> satisfy: the value
  starts at one plus the first return and is multiplied by one plus the return at every
  later date; the cumulative P&L is the value less one at every date; the P&L is 0 at the
  first date and the step of the value at every later date. The return series is finite
  whenever the normalised weights and the returns table are.
\<close>

theorem return_metrics_identities:
  assumes m: "portfolio_return_metrics p = Inr (r, v, c, pnl)"
    and ne: "r \<noteq> []"
  shows "(list_all is_fin (weights p) \<and> list_all (list_all is_fin) (rows (market_returns p))
            \<longrightarrow> list_all is_fin r)
     \<and> (list_all is_fin r \<longrightarrow>
           length v = length r \<and> length c = length r \<and> length pnl = length r
         \<and> v ! 0 = fadd (Fin 1) (r ! 0)
         \<and> (\<forall>t. 0 < t \<and> t < length r \<longrightarrow> v ! t = fmul (v ! (t - 1)) (fadd (Fin 1) (r ! t)))
         \<and> (\<forall>t<length r. c ! t = fsub (v ! t) (Fin 1))
         \<and> pnl ! 0 = Fin 0
         \<and> (\<forall>t. 0 < t \<and> t < length r \<longrightarrow> pnl ! t = fsub (v ! t) (v ! (t - 1))))"
proof (intro conjI impI)
  assume "list_all is_fin (weights p) \<and> list_all (list_all is_fin) (rows (market_returns p))"
  then have "list_all is_fin (map (\<lambda>row. dot row (weights p)) (rows (market_returns p)))"
    by (intro is_fin_returns) simp_all
  with return_metrics_cases(1) [OF m] show "list_all is_fin r" by simp
next
  assume rfin: "list_all is_fin r"
  define g where "g = map (fadd (Fin 1)) r"
  from return_metrics_cases [OF m] have v_def: "v = cumprod g"
    and c_def: "c = map (\<lambda>x. fsub x (Fin 1)) v"
    and pnl_def: "pnl = fillna (Fin 0) (series_diff v)"
    by (simp_all add: g_def)
  note rne = ne
  from rfin have gfin: "list_all is_fin g"
    by (simp add: g_def list_all_iff is_fin_fadd)
  then have gnn: "list_all (\<lambda>x. \<not> isnan x) g"
    by (simp add: list_all_iff is_fin_notnan)
  have lg: "length g = length r" by (simp add: g_def)
  have lv: "length v = length r" by (simp add: v_def cumprod_def length_cumprod_from lg)
  have lc: "length c = length r" by (simp add: c_def lv)
  have lp: "length pnl = length r" by (simp add: pnl_def fillna_def length_series_diff lv)
  from gfin have vfin: "list_all is_fin v"
    by (simp add: v_def cumprod_def cumprod_from_fin)
  from rne lg gnn have "v ! 0 = fmul (Fin 1) (g ! 0)"
    unfolding v_def cumprod_def by (intro cumprod_from_0) (auto simp: list_all_length)
  with rne have v0: "v ! 0 = fadd (Fin 1) (r ! 0)"
    by (simp add: fmul_one g_def)
  have vstep: "v ! t = fmul (v ! (t - 1)) (fadd (Fin 1) (r ! t))" if "0 < t" "t < length r" for t
  proof -
    from that obtain t' where t: "t = Suc t'" by (cases t) auto
    with that lg gnn cumprod_from_step [of g t' "Fin 1"] show ?thesis
      by (simp add: v_def cumprod_def g_def)
  qed
  have cs: "c ! t = fsub (v ! t) (Fin 1)" if "t < length r" for t
    using that lv by (simp add: c_def)
  from rne lv have p0: "pnl ! 0 = Fin 0"
    by (cases v) (simp_all add: pnl_def fillna_def series_diff_def)
  have pstep: "pnl ! t = fsub (v ! t) (v ! (t - 1))" if "0 < t" "t < length r" for t
  proof -
    from that obtain t' where t: "t = Suc t'" by (cases t) auto
    from that t lv vfin have "is_fin (v ! t)" "is_fin (v ! t')"
      by (simp_all add: list_all_length)
    then have "\<not> isnan (fsub (v ! t) (v ! t'))"
      by (simp add: is_fin_fsub is_fin_notnan)
    with that t lv series_diff_step [of t' v] show ?thesis
      by (simp add: pnl_def fillna_def length_series_diff)
  qed
  show "length v = length r" by (rule lv)
  show "length c = length r" by (rule lc)
  show "length pnl = length r" by (rule lp)
  show "v ! 0 = fadd (Fin 1) (r ! 0)" by (rule v0)
  show "\<forall>t. 0 < t \<and> t < length r \<longrightarrow> v ! t = fmul (v ! (t - 1)) (fadd (Fin 1) (r ! t))"
    using vstep by simp
  show "\<forall>t<length r. c ! t = fsub (v ! t) (Fin 1)" using cs by simp
  show "pnl ! 0 = Fin 0" by (rule p0)
  show "\<forall>t. 0 < t \<and> t < length r \<longrightarrow> pnl ! t = fsub (v ! t) (v ! (t - 1))"
    using pstep by simp
qed

lemma two_assets_weights: "weights two_assets_portfolio = [Fin (3 / 5), Fin (2 / 5)]"
  by (simp add: two_assets_portfolio_def post_init_def Let_def)

lemma two_assets_returns:
  "market_returns two_assets_portfolio =
     \<lparr>columns = [''A'', ''B''],
      rows = [[Fin (1 / 100), Fin (1 / 100)], [Fin (1 / 101), Fin (1 / 101)],
              [Fin (- 1 / 102), Fin (- 1 / 102)]]\<rparr>"
  by (simp add: two_assets_portfolio_def post_init_def get_market_data_def
      calculate_market_returns_def dropna_def pct_change_def ffill_def two_assets_def
      fsub_def Let_def)

lemma two_assets_return_metrics:
  "portfolio_return_metrics two_assets_portfolio =
     Inr ([Fin (1 / 100), Fin (1 / 101), Fin (- 1 / 102)],
          [Fin (101 / 100), Fin (102 / 100), Fin (101 / 100)],
          [Fin (1 / 100), Fin (2 / 100), Fin (1 / 100)],
          [Fin 0, Fin (1 / 100), Fin (- 1 / 100)])"
  by (simp add: portfolio_return_metrics_def frame_matmul_def two_assets_returns
      two_assets_weights dot_def cumprod_def series_diff_def fillna_def fsub_def Let_def)

theorem return_metrics_identities_witness:
  "portfolio_return_metrics two_assets_portfolio =
     Inr ([Fin (1 / 100), Fin (1 / 101), Fin (- 1 / 102)],
          [Fin (101 / 100), Fin (102 / 100), Fin (101 / 100)],
          [Fin (1 / 100), Fin (2 / 100), Fin (1 / 100)],
          [Fin 0, Fin (1 / 100), Fin (- 1 / 100)])
   \<and> [Fin (1 / 100), Fin (1 / 101), Fin (- 1 / 102)] \<noteq> []
   \<and> list_all is_fin [Fin (1 / 100), Fin (1 / 101), Fin (- 1 / 102)]
   \<and> [Fin (101 / 100), Fin (102 / 100), Fin (101 / 100)] ! 0 = fadd (Fin 1) (Fin (1 / 100))
   \<and> [Fin (101 / 100), Fin (102 / 100), Fin (101 / 100)] ! 2
        = fmul (Fin (102 / 100)) (fadd (Fin 1) (Fin (- 1 / 102)))
   \<and> [Fin 0, Fin (1 / 100), Fin (- 1 / 100)] ! 2 = fsub (Fin (101 / 100)) (Fin (102 / 100))"
proof -
  have ne: "[Fin (1 / 100), Fin (1 / 101), Fin (- 1 / 102)] \<noteq> []" by simp
  have fin: "list_all is_fin [Fin (1 / 100), Fin (1 / 101), Fin (- 1 / 102)]" by simp
  note ids = return_metrics_identities [OF two_assets_return_metrics ne]
  from ids fin have v0: "[Fin (101 / 100), Fin (102 / 100), Fin (101 / 100)] ! 0
      = fadd (Fin 1) ([Fin (1 / 100), Fin (1 / 101), Fin (- 1 / 102)] ! 0)"
    by blast
  from ids fin have "\<forall>t. 0 < t \<and> t < length [Fin (1 / 100), Fin (1 / 101), Fin (- 1 / 102)] \<longrightarrow>
      [Fin (101 / 100), Fin (102 / 100), Fin (101 / 100)] ! t
       = fmul ([Fin (101 / 100), Fin (102 / 100), Fin (101 / 100)] ! (t - 1))
           (fadd (Fin 1) ([Fin (1 / 100), Fin (1 / 101), Fin (- 1 / 102)] ! t))"
    by blast
  then have v2: "[Fin (101 / 100), Fin (102 / 100), Fin (101 / 100)] ! 2
       = fmul ([Fin (101 / 100), Fin (102 / 100), Fin (101 / 100)] ! (2 - 1))
           (fadd (Fin 1) ([Fin (1 / 100), Fin (1 / 101), Fin (- 1 / 102)] ! 2))"
    by (elim allE [of _ 2]) simp
  from ids fin have "\<forall>t. 0 < t \<and> t < length [Fin (1 / 100), Fin (1 / 101), Fin (- 1 / 102)] \<longrightarrow>
      [Fin 0, Fin (1 / 100), Fin (- 1 / 100)] ! t
       = fsub ([Fin (101 / 100), Fin (102 / 100), Fin (101 / 100)] ! t)
           ([Fin (101 / 100), Fin (102 / 100), Fin (101 / 100)] ! (t - 1))"
    by blast
  then have p2: "[Fin 0, Fin (1 / 100), Fin (- 1 / 100)] ! 2
       = fsub ([Fin (101 / 100), Fin (102 / 100), Fin (101 / 100)] ! 2)
           ([Fin (101 / 100), Fin (102 / 100), Fin (101 / 100)] ! (2 - 1))"
    by (elim allE [of _ 2]) simp
  from two_assets_return_metrics ne fin v0 v2 p2 show ?thesis
    by (simp add: fsub_def)
qed

section \<open>Statistics of finite series\<close>

lemma filter_notnan_Fin: "filter (\<lambda>x. \<not> isnan x) (map Fin ys) = map Fin ys"
  by (induction ys) simp_all

lemma fin_list_ex: "list_all is_fin xs \<Longrightarrow> \<exists>ys. xs = map Fin ys"
proof (induction xs)
  case Nil
  then show ?case by simp
next
  case (Cons x xs)
  then obtain y ys where "x = Fin y" "xs = map Fin ys" by (cases x) auto
  then have "x # xs = map Fin (y # ys)" by simp
  then show ?case by (rule exI)
qed

lemma series_mean_Fin:
  "series_mean (map Fin ys) = (if ys = [] then NaN else Fin (real_mean ys))"
  by (simp add: series_mean_def filter_notnan_Fin np_sum_Fin real_mean_def Let_def)

lemma sq_dev_Fin:
  "np_sum (map ((\<lambda>y. fmul (fsub (Fin a) y) (fsub (Fin a) y)) \<circ> Fin) ys) = Fin (\<Sum>y\<leftarrow>ys. (y - a)\<^sup>2)"
  by (induction ys) (simp_all add: fsub_def power2_eq_square algebra_simps)

lemma series_var_Fin:
  "series_var (map Fin ys) =
     (if length ys \<le> 1 then NaN
      else Fin ((\<Sum>y\<leftarrow>ys. (y - real_mean ys)\<^sup>2) / (real (length ys) - 1)))"
proof (cases "length ys \<le> 1")
  case True
  then show ?thesis by (simp add: series_var_def filter_notnan_Fin Let_def)
next
  case False
  then have n: "real (length ys) \<noteq> 0" "real (length ys) - 1 \<noteq> 0" by auto
  with False show ?thesis
    by (simp add: series_var_def filter_notnan_Fin Let_def np_sum_Fin sq_dev_Fin
        real_mean_def [symmetric])
qed

lemma sum_sq_nonneg: "0 \<le> (\<Sum>y\<leftarrow>ys. (y - a)\<^sup>2)" for a :: real
  by (induction ys) simp_all

lemma series_std_Fin:
  "series_std (map Fin ys) = (if length ys \<le> 1 then NaN else Fin (sample_std ys))"
proof (cases "length ys \<le> 1")
  case True
  then show ?thesis by (simp add: series_std_def series_var_Fin)
next
  case False
  then have "0 \<le> (\<Sum>y\<leftarrow>ys. (y - real_mean ys)\<^sup>2) / (real (length ys) - 1)"
    by (intro divide_nonneg_nonneg sum_sq_nonneg) simp
  with False show ?thesis
    by (simp add: series_std_def series_var_Fin sample_std_def)
qed

lemma series_std_short: "length xs \<le> 1 \<Longrightarrow> series_std xs = NaN"
proof -
  assume "length xs \<le> 1"
  moreover have "length (filter (\<lambda>x. \<not> isnan x) xs) \<le> length xs" by simp
  ultimately have "length (filter (\<lambda>x. \<not> isnan x) xs) \<le> 1" by linarith
  then show ?thesis by (simp add: series_std_def series_var_def Let_def)
qed

lemma fdiv_NaN_right: "fdiv a NaN = NaN"
  by (cases a) simp_all

lemma series_quantile_Inr:
  "0 \<le> q \<Longrightarrow> q \<le> 1 \<Longrightarrow> \<exists>v. series_quantile xs q = Inr v"
  by (simp add: series_quantile_def Let_def)


text \<open>
  The result of the volatility metrics whenever the return series and the quantile exist.
  The two guards of the Sortino ratio change nothing: the deviation of an empty series is
  \<open>NaN\<close> already, and a quotient by \<open>NaN\<close> is \<open>NaN\<close>.
\<close>

lemma volatility_metrics_Inr:
  assumes m: "portfolio_return_metrics p = Inr (r, v, c, pnl)"
    and q: "series_quantile r alpha = Inr pv"
  shows "portfolio_volatility_metrics p rf alpha =
     Inr (fmul (fmul (series_std r) (Fin (sqrt 12))) (Fin 100),
          fdiv (series_cov r (frame_row_mean (market_returns p))) (series_var (frame_row_mean (market_returns p))),
          fmul (fdiv (fsub (series_mean r) (Fin rf)) (fmul (fmul (series_std r) (Fin (sqrt 12))) (Fin 100)))
               (Fin (sqrt 12)),
          series_mean (filter (\<lambda>x. fle x pv) r),
          fdiv (fsub (series_mean r) (Fin rf)) (series_std (filter (\<lambda>x. flt x (Fin rf)) r)))"
proof -
  have "(if filter (\<lambda>x. flt x (Fin rf)) r \<noteq> [] then series_std (filter (\<lambda>x. flt x (Fin rf)) r) else NaN)
      = series_std (filter (\<lambda>x. flt x (Fin rf)) r)"
    by (simp add: series_std_short)
  moreover have "(if \<not> isnan d then fdiv a d else NaN) = fdiv a d" for a d
    by (cases d) (simp_all add: fdiv_NaN_right)
  ultimately show ?thesis
    using m q by (simp add: portfolio_volatility_metrics_def Let_def)
qed

section \<open>Sortino ratio\<close>

lemma up_down_return_metrics:
  "portfolio_return_metrics up_down_portfolio =
     Inr ([Fin 1, Fin (- 1 / 2)], [Fin 2, Fin 1], [Fin 1, Fin 0], [Fin 0, Fin (- 1)])"
  by (simp add: up_down_portfolio_def post_init_def get_market_data_def
      calculate_market_returns_def dropna_def pct_change_def ffill_def up_down_def
      portfolio_return_metrics_def frame_matmul_def dot_def cumprod_def series_diff_def
      fillna_def fsub_def Let_def)

text \<open>
  Claim C10. When the return series has exactly one entry strictly below the risk-free
  rate, the volatility metrics return (for any quantile level in \<open>[0, 1]\<close>) and their
  Sortino ratio is \<open>NaN\<close>: the sample deviation of one observation is \<open>NaN\<close>.
\<close>

theorem sortino_single_downside:
  assumes m: "portfolio_return_metrics p = Inr (r, v, c, pnl)"
    and a: "0 \<le> alpha" "alpha \<le> 1"
    and one: "length (filter (\<lambda>x. flt x (Fin rf)) r) = 1"
  shows "\<exists>std beta sharpe cvar. portfolio_volatility_metrics p rf alpha = Inr (std, beta, sharpe, cvar, NaN)"
proof -
  from a obtain pv where q: "series_quantile r alpha = Inr pv"
    using series_quantile_Inr by blast
  from one have "series_std (filter (\<lambda>x. flt x (Fin rf)) r) = NaN"
    by (simp add: series_std_short)
  with volatility_metrics_Inr [OF m q, of rf] show ?thesis
    by (simp add: fdiv_NaN_right)
qed

theorem sortino_single_downside_witness:
  "(\<exists>v c pnl. portfolio_return_metrics two_assets_portfolio =
       Inr ([Fin (1 / 100), Fin (1 / 101), Fin (- 1 / 102)], v, c, pnl))
   \<and> (0::real) \<le> 5 / 100 \<and> (5::real) / 100 \<le> 1
   \<and> length (filter (\<lambda>x. flt x (Fin 0)) [Fin (1 / 100), Fin (1 / 101), Fin (- 1 / 102)]) = 1
   \<and> (\<exists>std beta sharpe cvar.
         portfolio_volatility_metrics two_assets_portfolio 0 (5 / 100) = Inr (std, beta, sharpe, cvar, NaN))"
proof -
  have one: "length (filter (\<lambda>x. flt x (Fin 0)) [Fin (1 / 100), Fin (1 / 101), Fin (- 1 / 102)]) = 1"
    by simp
  have a: "(0::real) \<le> 5 / 100" "(5::real) / 100 \<le> 1" by simp_all
  from sortino_single_downside [OF two_assets_return_metrics a one] two_assets_return_metrics one
  show ?thesis by simp
qed

text \<open>
  Claim C5, as stated: the Sortino ratio is \<open>NaN\<close> exactly when no return is below the
  risk-free rate. It fails for the returns 1 and -1/2 with rate 0: one return is below
  the rate, and the Sortino ratio is \<open>NaN\<close>.
\<close>

theorem sortino_undefined_counterexample:
  "map_sum id fst (portfolio_return_metrics up_down_portfolio) = Inr [Fin 1, Fin (- 1 / 2)]
   \<and> flt (Fin (- 1 / 2)) (Fin 0)
   \<and> sortino_of (portfolio_volatility_metrics up_down_portfolio 0 (5 / 100)) = Inr NaN"
proof -
  obtain pv where q: "series_quantile [Fin 1, Fin (- 1 / 2)] (5 / 100) = Inr pv"
    using series_quantile_Inr [of "5 / 100"] by auto
  show ?thesis
    using volatility_metrics_Inr [OF up_down_return_metrics q, of 0]
    by (simp add: up_down_return_metrics sortino_of_def series_std_short fdiv_NaN_right)
qed

lemma filter_flt_Fin:
  "filter (\<lambda>x. flt x (Fin b)) (map Fin ys) = map Fin (filter (\<lambda>y. y < b) ys)"
  by (induction ys) simp_all

lemma slump_return_metrics:
  "map_sum id fst (portfolio_return_metrics slump_portfolio) =
     Inr [Fin (- 1 / 4), Fin (- 1 / 2), Fin (- 3 / 4), Fin 1]"
  by (simp add: slump_portfolio_def post_init_def get_market_data_def
      calculate_market_returns_def dropna_def pct_change_def ffill_def slump_def
      portfolio_return_metrics_def frame_matmul_def dot_def fsub_def Let_def)

lemma sqrt_sixteenth: "sqrt (1 / 16) = 1 / 4"
  by (rule real_sqrt_unique) (simp_all add: power2_eq_square)

text \<open>
  Claim C5, amended. Whenever the return series exists and the quantile level lies in
  \<open>[0, 1]\<close>, the volatility metrics return and the Sortino ratio is the quotient of the
  mean return less the risk-free rate by the sample deviation of the returns strictly
  below the rate. It is \<open>NaN\<close> whenever fewer than two returns are below the rate, in
  particular when none is. For a series of finite returns it is \<open>NaN\<close> exactly when
  fewer than two returns are below the rate, or their deviation is 0 and the mean return
  equals the rate; with two or more such returns and a nonzero deviation it is the real
  quotient of the specification.
\<close>

theorem sortino_ratio_value:
  assumes m: "portfolio_return_metrics p = Inr (r, v, c, pnl)"
    and a: "0 \<le> alpha" "alpha \<le> 1"
  shows "\<exists>std beta sharpe cvar sortino.
      portfolio_volatility_metrics p rf alpha = Inr (std, beta, sharpe, cvar, sortino)
    \<and> sortino = fdiv (fsub (series_mean r) (Fin rf)) (series_std (filter (\<lambda>x. flt x (Fin rf)) r))
    \<and> (length (filter (\<lambda>x. flt x (Fin rf)) r) < 2 \<longrightarrow> sortino = NaN)
    \<and> ((\<forall>x\<in>set r. \<not> flt x (Fin rf)) \<longrightarrow> sortino = NaN)
    \<and> (\<forall>ys. r = map Fin ys \<longrightarrow>
          (sortino = NaN \<longleftrightarrow>
             length (filter (\<lambda>y. y < rf) ys) < 2
             \<or> sample_std (filter (\<lambda>y. y < rf) ys) = 0 \<and> real_mean ys = rf)
        \<and> (2 \<le> length (filter (\<lambda>y. y < rf) ys) \<and> sample_std (filter (\<lambda>y. y < rf) ys) \<noteq> 0 \<longrightarrow>
             sortino = Fin ((real_mean ys - rf) / sample_std (filter (\<lambda>y. y < rf) ys))))"
proof -
  define ds where "ds = filter (\<lambda>x. flt x (Fin rf)) r"
  define sortino where "sortino = fdiv (fsub (series_mean r) (Fin rf)) (series_std ds)"
  from a obtain pv where q: "series_quantile r alpha = Inr pv"
    using series_quantile_Inr by blast
  from volatility_metrics_Inr [OF m q, of rf] obtain std beta sharpe cvar where
    res: "portfolio_volatility_metrics p rf alpha = Inr (std, beta, sharpe, cvar, sortino)"
    by (simp add: sortino_def ds_def)
  have short: "sortino = NaN" if "length ds < 2"
    using that by (simp add: sortino_def series_std_short fdiv_NaN_right)
  have none: "sortino = NaN" if "\<forall>x\<in>set r. \<not> flt x (Fin rf)"
  proof -
    from that have "ds = []" by (simp add: ds_def filter_empty_conv)
    with short show ?thesis by simp
  qed
  have fin: "(sortino = NaN \<longleftrightarrow>
             length (filter (\<lambda>y. y < rf) ys) < 2
             \<or> sample_std (filter (\<lambda>y. y < rf) ys) = 0 \<and> real_mean ys = rf)
        \<and> (2 \<le> length (filter (\<lambda>y. y < rf) ys) \<and> sample_std (filter (\<lambda>y. y < rf) ys) \<noteq> 0 \<longrightarrow>
             sortino = Fin ((real_mean ys - rf) / sample_std (filter (\<lambda>y. y < rf) ys)))"
    if r: "r = map Fin ys" for ys
  proof (cases "length (filter (\<lambda>y. y < rf) ys) < 2")
    case True
    with r have "length ds < 2" by (simp add: ds_def filter_flt_Fin)
    with short True show ?thesis by simp
  next
    case False
    then have "ys \<noteq> []" by auto
    with False r show ?thesis
      by (auto simp: sortino_def ds_def filter_flt_Fin series_std_Fin series_mean_Fin fsub_def
          inf_of_sign_def)
  qed
  from res short none fin show ?thesis
    unfolding ds_def [symmetric] sortino_def [symmetric] by (simp add: ds_def sortino_def) 
qed


lemma slump_mean:
  "series_mean [Fin (- (1 / 4)), Fin (- (1 / 2)), Fin (- (3 / 4)), Fin 1] = Fin (- (1 / 8))"
  using series_mean_Fin [of "[- (1 / 4), - (1 / 2), - (3 / 4), 1]"] by (simp add: real_mean_def)

lemma slump_downside_std:
  "series_std [Fin (- (1 / 4)), Fin (- (1 / 2)), Fin (- (3 / 4))] = Fin (1 / 4)"
  using series_std_Fin [of "[- (1 / 4), - (1 / 2), - (3 / 4)]"]
  by (simp add: sample_std_def real_mean_def power2_eq_square sqrt_sixteenth)

theorem sortino_ratio_value_witness:
  "(\<exists>v c pnl. portfolio_return_metrics slump_portfolio =
       Inr ([Fin (- 1 / 4), Fin (- 1 / 2), Fin (- 3 / 4), Fin 1], v, c, pnl))
   \<and> (0::real) \<le> 5 / 100 \<and> (5::real) / 100 \<le> 1
   \<and> sortino_of (portfolio_volatility_metrics slump_portfolio 0 (5 / 100)) = Inr (Fin (- 1 / 2))"
proof -
  from slump_return_metrics obtain v c pnl where
    m: "portfolio_return_metrics slump_portfolio =
          Inr ([Fin (- 1 / 4), Fin (- 1 / 2), Fin (- 3 / 4), Fin 1], v, c, pnl)"
    by (cases "portfolio_return_metrics slump_portfolio") auto
  have a: "(0::real) \<le> 5 / 100" "(5::real) / 100 \<le> 1" by simp_all
  from sortino_ratio_value [OF m a, of 0] obtain std beta sharpe cvar sortino where
    res: "portfolio_volatility_metrics slump_portfolio 0 (5 / 100) = Inr (std, beta, sharpe, cvar, sortino)"
    and so: "sortino = fdiv (fsub (series_mean [Fin (- 1 / 4), Fin (- 1 / 2), Fin (- 3 / 4), Fin 1]) (Fin 0))
        (series_std (filter (\<lambda>x. flt x (Fin 0)) [Fin (- 1 / 4), Fin (- 1 / 2), Fin (- 3 / 4), Fin 1]))"
    by blast
  from so have "sortino = Fin (- 1 / 2)"
    by (simp add: slump_mean slump_downside_std fsub_def)
  with res m show ?thesis
    by (simp add: sortino_of_def)
qed

section \<open>Annualized deviation and Sharpe ratio\<close>

lemma return_metrics_frequency:
  "portfolio_return_metrics (p\<lparr>rebalancing_frequency := f\<rparr>) = portfolio_return_metrics p"
  by (simp add: portfolio_return_metrics_def)

lemma volatility_metrics_frequency:
  "portfolio_volatility_metrics (p\<lparr>rebalancing_frequency := f\<rparr>) rf alpha =
   portfolio_volatility_metrics p rf alpha"
  by (simp add: portfolio_volatility_metrics_def return_metrics_frequency split: sum.splits)

lemma climb_return_metrics:
  "map_sum id fst (portfolio_return_metrics climb_portfolio) = Inr [Fin 0, Fin (1 / 2), Fin 1]"
  by (simp add: climb_portfolio_def post_init_def get_market_data_def
      calculate_market_returns_def dropna_def pct_change_def ffill_def climb_def
      portfolio_return_metrics_def frame_matmul_def dot_def fsub_def Let_def)

lemma sqrt_quarter: "sqrt (1 / 4) = 1 / 2"
  by (rule real_sqrt_unique) (simp_all add: power2_eq_square)

text \<open>
  Claim C8. Whenever the return series exists and the quantile level lies in \<open>[0, 1]\<close>,
  the volatility metrics return; the annualized deviation is the deviation of the returns
  times \<open>sqrt 12\<close> times 100, and the annualized Sharpe ratio is the mean return less the
  risk-free rate, over that already scaled deviation, times \<open>sqrt 12\<close>. The stored
  rebalancing frequency does not enter: changing it changes no metric. For a series of two
  or more finite returns these are the sample deviation and mean of the specification.
\<close>

theorem annualized_std_and_sharpe:
  assumes m: "portfolio_return_metrics p = Inr (r, v, c, pnl)"
    and a: "0 \<le> alpha" "alpha \<le> 1"
  shows "\<exists>std beta sharpe cvar sortino.
      portfolio_volatility_metrics p rf alpha = Inr (std, beta, sharpe, cvar, sortino)
    \<and> std = fmul (fmul (series_std r) (Fin (sqrt 12))) (Fin 100)
    \<and> sharpe = fmul (fdiv (fsub (series_mean r) (Fin rf)) std) (Fin (sqrt 12))
    \<and> (\<forall>f. portfolio_volatility_metrics (p\<lparr>rebalancing_frequency := f\<rparr>) rf alpha =
             Inr (std, beta, sharpe, cvar, sortino))
    \<and> (\<forall>ys. r = map Fin ys \<and> 2 \<le> length ys \<longrightarrow>
          std = Fin (sample_std ys * sqrt 12 * 100)
        \<and> (sample_std ys \<noteq> 0 \<longrightarrow>
             sharpe = Fin ((real_mean ys - rf) / (sample_std ys * sqrt 12 * 100) * sqrt 12)))"
proof -
  define std where "std = fmul (fmul (series_std r) (Fin (sqrt 12))) (Fin 100)"
  define sharpe where "sharpe = fmul (fdiv (fsub (series_mean r) (Fin rf)) std) (Fin (sqrt 12))"
  from a obtain pv where q: "series_quantile r alpha = Inr pv"
    using series_quantile_Inr by blast
  from volatility_metrics_Inr [OF m q, of rf] obtain beta cvar sortino where
    res: "portfolio_volatility_metrics p rf alpha = Inr (std, beta, sharpe, cvar, sortino)"
    by (simp add: std_def sharpe_def)
  have fin: "std = Fin (sample_std ys * sqrt 12 * 100)
        \<and> (sample_std ys \<noteq> 0 \<longrightarrow>
             sharpe = Fin ((real_mean ys - rf) / (sample_std ys * sqrt 12 * 100) * sqrt 12))"
    if "r = map Fin ys" "2 \<le> length ys" for ys
  proof -
    from that have "ys \<noteq> []" by auto
    with that show ?thesis
      by (simp add: std_def sharpe_def series_std_Fin series_mean_Fin fsub_def)
  qed
  from res fin show ?thesis
    by (simp add: volatility_metrics_frequency std_def [symmetric] sharpe_def [symmetric])
qed

lemma climb_std: "series_std [Fin 0, Fin (1 / 2), Fin 1] = Fin (1 / 2)"
  using series_std_Fin [of "[0, 1 / 2, 1]"]
  by (simp add: sample_std_def real_mean_def power2_eq_square sqrt_quarter)

lemma climb_mean: "series_mean [Fin 0, Fin (1 / 2), Fin 1] = Fin (1 / 2)"
  using series_mean_Fin [of "[0, 1 / 2, 1]"] by (simp add: real_mean_def)

theorem annualized_std_and_sharpe_witness:
  "(\<exists>v c pnl. portfolio_return_metrics climb_portfolio = Inr ([Fin 0, Fin (1 / 2), Fin 1], v, c, pnl))
   \<and> (0::real) \<le> 5 / 100 \<and> (5::real) / 100 \<le> 1
   \<and> (\<exists>beta cvar sortino. portfolio_volatility_metrics climb_portfolio 0 (5 / 100) =
         Inr (Fin (50 * sqrt 12), beta, Fin (1 / 100), cvar, sortino))"
proof -
  from climb_return_metrics obtain v c pnl where
    m: "portfolio_return_metrics climb_portfolio = Inr ([Fin 0, Fin (1 / 2), Fin 1], v, c, pnl)"
    by (cases "portfolio_return_metrics climb_portfolio") auto
  have a: "(0::real) \<le> 5 / 100" "(5::real) / 100 \<le> 1" by simp_all
  from annualized_std_and_sharpe [OF m a, of 0] obtain std beta sharpe cvar sortino where
    res: "portfolio_volatility_metrics climb_portfolio 0 (5 / 100) = Inr (std, beta, sharpe, cvar, sortino)"
    and s: "std = fmul (fmul (series_std [Fin 0, Fin (1 / 2), Fin 1]) (Fin (sqrt 12))) (Fin 100)"
    and sh: "sharpe = fmul (fdiv (fsub (series_mean [Fin 0, Fin (1 / 2), Fin 1]) (Fin 0)) std) (Fin (sqrt 12))"
    by blast
  from s have s': "std = Fin (50 * sqrt 12)"
    by (simp add: climb_std)
  with sh have "sharpe = Fin (1 / 100)"
    by (simp add: climb_mean fsub_def)
  with res s' m show ?thesis by simp
qed

section \<open>Conditional value at risk\<close>

















section \<open>Volatility decomposition\<close>

lemma columns_calculate_market_returns:
  "columns (calculate_market_returns fill md) = columns md"
  by (simp add: calculate_market_returns_def dropna_def pct_change_def Let_def)

lemma index_of_nth: "distinct xs \<Longrightarrow> i < length xs \<Longrightarrow> index_of (xs ! i) xs = Some i"
proof (induction xs arbitrary: i)
  case Nil
  then show ?case by simp
next
  case (Cons x xs)
  then show ?case by (cases i) auto
qed

lemma series_mul_array_same:
  "length a = length s \<Longrightarrow> series_mul_array s a = Inr (map2 fmul s a)"
  by (simp add: series_mul_array_def)

lemma decomposition_by_position:
  assumes "length (columns (market_returns p)) = length (weights p)"
  shows "\<exists>d. asset_volatility_decomposition p = Inr d \<and> length d = length (weights p)
     \<and> (\<forall>i<length (weights p).
          d ! i = fmul (series_std (map (\<lambda>r. r ! i) (rows (market_returns p)))) (weights p ! i))"
proof -
  let ?stds = "frame_std (market_returns p)"
  from assms have l: "length ?stds = length (weights p)"
    by (simp add: frame_std_def frame_columns_def)
  then have "asset_volatility_decomposition p = Inr (map2 fmul ?stds (weights p))"
    by (simp add: asset_volatility_decomposition_def series_mul_array_same)
  moreover have "map2 fmul ?stds (weights p) ! i =
      fmul (series_std (map (\<lambda>r. r ! i) (rows (market_returns p)))) (weights p ! i)"
    if "i < length (weights p)" for i
    using that l assms by (simp add: frame_std_def frame_columns_def)
  ultimately show ?thesis using l by simp
qed

text \<open>
  On a table whose columns come in the order of the assets list the decomposition is
  aligned with the list, whatever the order of the tickers in it: the \<open>i\<close>-th column of
  the returns table carries the \<open>i\<close>-th asset's ticker, and the \<open>i\<close>-th entry is the
  sample deviation of that column times the \<open>i\<close>-th asset's normalised weight.
\<close>

lemma volatility_decomposition_aligned:
  assumes p: "p = post_init download fill as s e freq"
    and cols: "columns (market_data p) = map ticker as"
  shows "\<exists>d. asset_volatility_decomposition p = Inr d \<and> length d = length as
     \<and> (\<forall>i<length as.
          columns (market_returns p) ! i = ticker (as ! i)
        \<and> weights p ! i = fdiv (Fin (weight (as ! i))) (Fin (sum_list (map weight as)))
        \<and> d ! i = fmul (series_std (map (\<lambda>r. r ! i) (rows (market_returns p)))) (weights p ! i)
        \<and> (distinct (map ticker as) \<longrightarrow>
             column_named (market_returns p) (ticker (as ! i)) =
               Some (map (\<lambda>r. r ! i) (rows (market_returns p)))))"
proof -
  from p have mr: "market_returns p = calculate_market_returns fill (market_data p)"
    and w: "weights p = map (\<lambda>a. fdiv (Fin (weight a)) (Fin (sum_list (map weight as)))) as"
    by (simp_all add: post_init_def Let_def np_sum_weights o_def)
  from mr cols have c: "columns (market_returns p) = map ticker as"
    by (simp add: columns_calculate_market_returns)
  from w have lw: "length (weights p) = length as" by simp
  with c have "length (columns (market_returns p)) = length (weights p)" by simp
  from decomposition_by_position [OF this] lw obtain d where
    d: "asset_volatility_decomposition p = Inr d" "length d = length as"
      "\<forall>i<length as. d ! i = fmul (series_std (map (\<lambda>r. r ! i) (rows (market_returns p)))) (weights p ! i)"
    by auto
  have named: "column_named (market_returns p) (ticker (as ! i)) =
               Some (map (\<lambda>r. r ! i) (rows (market_returns p)))"
    if "i < length as" "distinct (map ticker as)" for i
    using that index_of_nth [of "map ticker as" i] by (simp add: column_named_def c)
  from d c w named show ?thesis by simp
qed

lemma agg_spy_returns:
  "calculate_market_returns Pad agg_spy =
     \<lparr>columns = [''AGG'', ''SPY''],
      rows = [[Fin (- (1 / 4)), Fin (- (1 / 2))], [Fin 0, Fin 0], [Fin (1 / 4), Fin (1 / 2)]]\<rparr>"
  by (simp add: calculate_market_returns_def dropna_def pct_change_def ffill_def agg_spy_def
      fsub_def Let_def)

lemma agg_std: "series_std [Fin (- (1 / 4)), Fin 0, Fin (1 / 4)] = Fin (1 / 4)"
  using series_std_Fin [of "[- (1 / 4), 0, 1 / 4]"]
  by (simp add: sample_std_def real_mean_def power2_eq_square sqrt_sixteenth)

lemma spy_std: "series_std [Fin (- (1 / 2)), Fin 0, Fin (1 / 2)] = Fin (1 / 2)"
  using series_std_Fin [of "[- (1 / 2), 0, 1 / 2]"]
  by (simp add: sample_std_def real_mean_def power2_eq_square sqrt_quarter)

text \<open>
  Claim C7: the \<open>i\<close>-th entry of the decomposition is the deviation of the \<open>i\<close>-th
  asset's returns times that asset's normalised weight, for every ordering of the tickers
  in the assets list. The code multiplies the column deviations with the weights by
  position and never by label. For the assets SPY (0.6) and AGG (0.4), in that order, on a
  table whose columns are AGG, SPY, the entries are the deviation of AGG (1/4) times the
  weight of SPY (3/5) and the deviation of SPY (1/2) times the weight of AGG (2/5), not
  3/10 for SPY and 1/10 for AGG.
\<close>

theorem volatility_decomposition_misaligned:
  "tickers spy_agg_portfolio = [''SPY'', ''AGG'']
   \<and> weights spy_agg_portfolio = [Fin (3 / 5), Fin (2 / 5)]
   \<and> map_option series_std (column_named (market_returns spy_agg_portfolio) ''SPY'') = Some (Fin (1 / 2))
   \<and> map_option series_std (column_named (market_returns spy_agg_portfolio) ''AGG'') = Some (Fin (1 / 4))
   \<and> asset_volatility_decomposition spy_agg_portfolio = Inr [Fin (3 / 20), Fin (1 / 5)]"
proof -
  have mr: "market_returns spy_agg_portfolio = calculate_market_returns Pad agg_spy"
    by (simp add: spy_agg_portfolio_def post_init_def get_market_data_def Let_def)
  have w: "weights spy_agg_portfolio = [Fin (3 / 5), Fin (2 / 5)]"
    by (simp add: spy_agg_portfolio_def post_init_def Let_def)
  have t: "tickers spy_agg_portfolio = [''SPY'', ''AGG'']"
    by (simp add: spy_agg_portfolio_def post_init_def Let_def)
  have "asset_volatility_decomposition spy_agg_portfolio = Inr [Fin (3 / 20), Fin (1 / 5)]"
    by (simp add: asset_volatility_decomposition_def mr agg_spy_returns w frame_std_def
        frame_columns_def series_mul_array_def agg_std spy_std upt_rec [of 0] upt_rec [of 1]
        numeral_2_eq_2)
  with w t show ?thesis
    by (simp add: mr agg_spy_returns column_named_def agg_std spy_std)
qed

lemma volatility_decomposition_aligned_example:
  "columns (market_data agg_spy_portfolio) = map ticker (assets agg_spy_portfolio)
   \<and> assets agg_spy_portfolio =
       [\<lparr>ticker = ''AGG'', weight = 4 / 10\<rparr>, \<lparr>ticker = ''SPY'', weight = 6 / 10\<rparr>]
   \<and> map_option series_std (column_named (market_returns agg_spy_portfolio) ''AGG'') = Some (Fin (1 / 4))
   \<and> map_option series_std (column_named (market_returns agg_spy_portfolio) ''SPY'') = Some (Fin (1 / 2))
   \<and> asset_volatility_decomposition agg_spy_portfolio = Inr [Fin (1 / 4 * (2 / 5)), Fin (1 / 2 * (3 / 5))]"
proof -
  let ?as = "[\<lparr>ticker = ''AGG'', weight = 4 / 10\<rparr>, \<lparr>ticker = ''SPY'', weight = 6 / 10\<rparr>]"
  have p: "agg_spy_portfolio = post_init (\<lambda>_ _ _ _. agg_spy) Pad ?as (2021, 1, 1) (2023, 12, 31) ''1mo''"
    by (simp add: agg_spy_portfolio_def)
  have md: "market_data agg_spy_portfolio = agg_spy" and as: "assets agg_spy_portfolio = ?as"
    by (simp_all add: agg_spy_portfolio_def post_init_def get_market_data_def Let_def)
  have cols: "columns (market_data agg_spy_portfolio) = map ticker ?as"
    by (simp add: md agg_spy_def)
  have mr: "market_returns agg_spy_portfolio = calculate_market_returns Pad agg_spy"
    by (simp add: agg_spy_portfolio_def post_init_def get_market_data_def Let_def)
  from volatility_decomposition_aligned [OF p cols] obtain d where
    d: "asset_volatility_decomposition agg_spy_portfolio = Inr d" "length d = length ?as"
    and each: "\<forall>i<length ?as.
        weights agg_spy_portfolio ! i = fdiv (Fin (weight (?as ! i))) (Fin (sum_list (map weight ?as)))
      \<and> d ! i = fmul (series_std (map (\<lambda>r. r ! i) (rows (market_returns agg_spy_portfolio))))
           (weights agg_spy_portfolio ! i)"
    by blast
  from each have "d ! 0 = Fin (1 / 4 * (2 / 5))" "d ! 1 = Fin (1 / 2 * (3 / 5))"
    by (simp_all add: mr agg_spy_returns agg_std spy_std)
  with d have "d = [Fin (1 / 4 * (2 / 5)), Fin (1 / 2 * (3 / 5))]"
    by (intro nth_equalityI) (auto simp: less_Suc_eq numeral_2_eq_2)
  with d cols as show ?thesis
    by (simp add: mr agg_spy_returns column_named_def agg_std spy_std)
qed

section \<open>Sensitivity sweep: grid and collected metrics\<close>

lemma sweep_grid: "np_arange 0 (21 / 100) (5 / 100) = [0, 5 / 100, 10 / 100, 15 / 100, 20 / 100]"
proof -
  have "\<lceil>(21 / 100 - 0) / (5 / 100) :: real\<rceil> = 5"
    by (simp add: ceiling_eq_iff)
  then show ?thesis
    by (simp add: np_arange_def upt_rec [of 0] upt_rec [of 1] upt_rec [of 2] upt_rec [of 3]
        upt_rec [of 4] eval_nat_numeral)
qed

lemma sweep_assets_list:
  "sweep_assets q =
     [\<lparr>ticker = ''SPY'', weight = 6 / 10\<rparr>, \<lparr>ticker = ''AGG'', weight = 4 / 10 - q\<rparr>,
      \<lparr>ticker = ''TIP'', weight = q\<rparr>]"
  by (simp add: sweep_assets_def)

lemma sweep_weights:
  "weights (post_init download fill (sweep_assets q) s e freq) = [Fin (6 / 10), Fin (4 / 10 - q), Fin q]"
  by (simp add: post_init_def sweep_assets_list Let_def)

lemma post_init_market_returns:
  "market_returns (post_init download fill as s e freq) =
     calculate_market_returns fill (download (map ticker as) s e freq)"
  by (simp add: post_init_def get_market_data_def Let_def)

lemma return_metrics_Inr:
  assumes "length (columns (market_returns p)) = length (weights p)"
  shows "\<exists>r v c pnl. portfolio_return_metrics p = Inr (r, v, c, pnl)
     \<and> length r = length (rows (market_returns p)) \<and> length v = length r"
  using assms
  by (simp add: portfolio_return_metrics_def frame_matmul_def Let_def cumprod_def length_cumprod_from)

lemma collect_metrics_Inr:
  "collect_metrics ps = Inr (shs, cvs, sos, vs, nrs) \<Longrightarrow>
   length shs = length ps \<and> length cvs = length ps \<and> length sos = length ps
   \<and> length vs = length ps \<and> length nrs = length ps
   \<and> (\<forall>i<length ps.
         (\<exists>r c pnl. portfolio_return_metrics (ps ! i) = Inr (r, vs ! i, c, pnl))
       \<and> (\<exists>std beta. portfolio_volatility_metrics (ps ! i) 0 (5 / 100) =
             Inr (std, beta, shs ! i, cvs ! i, sos ! i))
       \<and> vs ! i \<noteq> [] \<and> nrs ! i = last (vs ! i))"
proof (induction ps arbitrary: shs cvs sos vs nrs)
  case Nil
  then show ?case by simp
next
  case (Cons p ps)
  from Cons.prems obtain r v c pnl where m: "portfolio_return_metrics p = Inr (r, v, c, pnl)"
    by (cases "portfolio_return_metrics p") auto
  from Cons.prems m obtain std beta sh cv so where
    vm: "portfolio_volatility_metrics p 0 (5 / 100) = Inr (std, beta, sh, cv, so)"
    by (cases "portfolio_volatility_metrics p 0 (5 / 100)") auto
  from Cons.prems m vm have ne: "v \<noteq> []"
    by (auto simp: iloc_last_def split: if_splits)
  from Cons.prems m vm ne obtain shs' cvs' sos' vs' nrs' where
    rest: "collect_metrics ps = Inr (shs', cvs', sos', vs', nrs')"
    by (cases "collect_metrics ps") (auto simp: iloc_last_def)
  from Cons.prems m vm ne rest have eq:
    "shs = sh # shs'" "cvs = cv # cvs'" "sos = so # sos'" "vs = v # vs'" "nrs = last v # nrs'"
    by (simp_all add: iloc_last_def)
  from Cons.IH [OF rest] have ih:
    "length shs' = length ps" "length cvs' = length ps" "length sos' = length ps"
    "length vs' = length ps" "length nrs' = length ps"
    "\<forall>i<length ps.
         (\<exists>r c pnl. portfolio_return_metrics (ps ! i) = Inr (r, vs' ! i, c, pnl))
       \<and> (\<exists>std beta. portfolio_volatility_metrics (ps ! i) 0 (5 / 100) =
             Inr (std, beta, shs' ! i, cvs' ! i, sos' ! i))
       \<and> vs' ! i \<noteq> [] \<and> nrs' ! i = last (vs' ! i)"
    by simp_all
  have "(\<exists>r c pnl. portfolio_return_metrics ((p # ps) ! i) = Inr (r, vs ! i, c, pnl))
       \<and> (\<exists>std beta. portfolio_volatility_metrics ((p # ps) ! i) 0 (5 / 100) =
             Inr (std, beta, shs ! i, cvs ! i, sos ! i))
       \<and> vs ! i \<noteq> [] \<and> nrs ! i = last (vs ! i)" if "i < length (p # ps)" for i
  proof (cases i)
    case 0
    with m vm ne eq show ?thesis by simp
  next
    case (Suc j)
    with that ih(6) eq show ?thesis by simp
  qed
  with eq ih show ?case by simp
qed

lemma collect_metrics_total:
  "list_all (\<lambda>p. length (columns (market_returns p)) = length (weights p)
      \<and> rows (market_returns p) \<noteq> []) ps \<Longrightarrow>
   \<exists>res. collect_metrics ps = Inr res"
proof (induction ps)
  case Nil
  then show ?case by simp
next
  case (Cons p ps)
  then obtain res where rest: "collect_metrics ps = Inr res" by auto
  from Cons.prems have dims: "length (columns (market_returns p)) = length (weights p)"
    and rows: "rows (market_returns p) \<noteq> []"
    by simp_all
  from return_metrics_Inr [OF dims] obtain r v c pnl where
    m: "portfolio_return_metrics p = Inr (r, v, c, pnl)"
    and l: "length r = length (rows (market_returns p))" "length v = length r"
    by blast
  from l rows have ne: "v \<noteq> []" by auto
  obtain pv where q: "series_quantile r (5 / 100) = Inr pv"
    using series_quantile_Inr [of "5 / 100" r] by auto
  from volatility_metrics_Inr [OF m q, of 0] obtain std beta sh cv so where
    vm: "portfolio_volatility_metrics p 0 (5 / 100) = Inr (std, beta, sh, cv, so)"
    by simp
  obtain shs cvs sos vs nrs where "res = (shs, cvs, sos, vs, nrs)"
    by (cases res) auto
  with rest m ne vm show ?case
    by (simp add: iloc_last_def)
qed


lemma sweep_portfolios_list:
  "sweep_portfolios download fill s e =
     map (\<lambda>q. post_init download fill
            [\<lparr>ticker = ''SPY'', weight = 6 / 10\<rparr>, \<lparr>ticker = ''AGG'', weight = 4 / 10 - q\<rparr>,
             \<lparr>ticker = ''TIP'', weight = q\<rparr>] s e ''1mo'')
       [0, 5 / 100, 10 / 100, 15 / 100, 20 / 100]"
  unfolding sweep_portfolios_def sweep_grid by (simp add: sweep_assets_list)

lemma sweep_portfolios_weights:
  "list_all (\<lambda>p. length (weights p) = 3 \<and> np_sum (weights p) = Fin 1)
     (sweep_portfolios download fill s e)"
  unfolding sweep_portfolios_def sweep_grid by (simp add: sweep_weights)

text \<open>
  Claim C9. The sweep builds exactly five portfolios, one per grid value
  \<open>p = 0, 0.05, 0.10, 0.15, 0.20\<close> in that order, with the raw weights 0.6 for SPY,
  \<open>0.4 - p\<close> for AGG and \<open>p\<close> for TIP; the normalised weights of each sum to 1. When
  the metric loop completes, each of its five lists has exactly five entries, the \<open>i\<close>-th
  being the Sharpe ratio, CVaR, Sortino ratio and value series of the \<open>i\<close>-th portfolio
  and the last entry of that value series. It completes whenever every portfolio has a
  returns table of three columns and at least one row.
\<close>

theorem sensitivity_sweep:
  "sweep_portfolios download fill s e =
     map (\<lambda>q. post_init download fill
            [\<lparr>ticker = ''SPY'', weight = 6 / 10\<rparr>, \<lparr>ticker = ''AGG'', weight = 4 / 10 - q\<rparr>,
             \<lparr>ticker = ''TIP'', weight = q\<rparr>] s e ''1mo'')
       [0, 5 / 100, 10 / 100, 15 / 100, 20 / 100]
   \<and> length (sweep_portfolios download fill s e) = 5
   \<and> list_all (\<lambda>p. np_sum (weights p) = Fin 1) (sweep_portfolios download fill s e)
   \<and> (\<forall>shs cvs sos vs nrs.
         collect_metrics (sweep_portfolios download fill s e) = Inr (shs, cvs, sos, vs, nrs) \<longrightarrow>
           length shs = 5 \<and> length cvs = 5 \<and> length sos = 5 \<and> length vs = 5 \<and> length nrs = 5
         \<and> (\<forall>i<5.
               (\<exists>r c pnl. portfolio_return_metrics (sweep_portfolios download fill s e ! i) =
                   Inr (r, vs ! i, c, pnl))
             \<and> (\<exists>std beta. portfolio_volatility_metrics (sweep_portfolios download fill s e ! i) 0 (5 / 100) =
                   Inr (std, beta, shs ! i, cvs ! i, sos ! i))
             \<and> nrs ! i = last (vs ! i)))
   \<and> (list_all (\<lambda>p. length (columns (market_returns p)) = 3 \<and> rows (market_returns p) \<noteq> [])
         (sweep_portfolios download fill s e) \<longrightarrow>
       (\<exists>res. collect_metrics (sweep_portfolios download fill s e) = Inr res))
   \<and> (fromisoformat a = Inr s \<and> fromisoformat b = Inr e \<longrightarrow>
       plot_sensitivity_analysis fromisoformat download fill a b =
         collect_metrics (sweep_portfolios download fill s e))"
proof -
  let ?ps = "sweep_portfolios download fill s e"
  have len: "length ?ps = 5"
    by (simp add: sweep_portfolios_list)
  from sweep_portfolios_weights [of download fill s e]
  have w3: "list_all (\<lambda>p. length (weights p) = 3) ?ps"
    and w1: "list_all (\<lambda>p. np_sum (weights p) = Fin 1) ?ps"
    by (simp_all add: list_all_iff)
  have coll: "length shs = 5 \<and> length cvs = 5 \<and> length sos = 5 \<and> length vs = 5 \<and> length nrs = 5
         \<and> (\<forall>i<5.
               (\<exists>r c pnl. portfolio_return_metrics (?ps ! i) = Inr (r, vs ! i, c, pnl))
             \<and> (\<exists>std beta. portfolio_volatility_metrics (?ps ! i) 0 (5 / 100) =
                   Inr (std, beta, shs ! i, cvs ! i, sos ! i))
             \<and> nrs ! i = last (vs ! i))"
    if "collect_metrics ?ps = Inr (shs, cvs, sos, vs, nrs)" for shs cvs sos vs nrs
    using collect_metrics_Inr [OF that] by (simp add: len)
  have total: "\<exists>res. collect_metrics ?ps = Inr res"
    if "list_all (\<lambda>p. length (columns (market_returns p)) = 3 \<and> rows (market_returns p) \<noteq> []) ?ps"
  proof (rule collect_metrics_total)
    from that w3 show "list_all (\<lambda>p. length (columns (market_returns p)) = length (weights p)
      \<and> rows (market_returns p) \<noteq> []) ?ps"
      by (simp add: list_all_iff)
  qed
  have plot: "plot_sensitivity_analysis fromisoformat download fill a b = collect_metrics ?ps"
    if "fromisoformat a = Inr s \<and> fromisoformat b = Inr e"
    using that by (simp add: plot_sensitivity_analysis_def)
  from sweep_portfolios_list [of download fill s e] len w1 coll total plot show ?thesis
    by blast
qed


lemma three_assets_returns:
  "calculate_market_returns Pad three_assets =
     \<lparr>columns = [''SPY'', ''AGG'', ''TIP''], rows = [[Fin 1, Fin 1, Fin 2]]\<rparr>"
  by (simp add: calculate_market_returns_def dropna_def pct_change_def ffill_def three_assets_def
      fsub_def Let_def)

lemma three_assets_sweep_metrics:
  "portfolio_return_metrics (post_init (\<lambda>_ _ _ _. three_assets) Pad (sweep_assets q) s e ''1mo'') =
     Inr ([Fin (1 + q)], [Fin (2 + q)], [Fin (1 + q)], [Fin 0])"
  by (simp add: portfolio_return_metrics_def post_init_market_returns three_assets_returns
      sweep_weights frame_matmul_def dot_def cumprod_def series_diff_def fillna_def fsub_def Let_def)

theorem sensitivity_sweep_witness:
  "list_all (\<lambda>p. length (columns (market_returns p)) = 3 \<and> rows (market_returns p) \<noteq> [])
     (sweep_portfolios (\<lambda>_ _ _ _. three_assets) Pad (2021, 1, 1) (2023, 12, 31))
   \<and> iso_dates ''2021-01-01'' = Inr (2021, 1, 1) \<and> iso_dates ''2023-12-31'' = Inr (2023, 12, 31)
   \<and> (\<exists>shs cvs sos vs nrs.
         plot_sensitivity_analysis iso_dates (\<lambda>_ _ _ _. three_assets) Pad ''2021-01-01'' ''2023-12-31'' =
           Inr (shs, cvs, sos, vs, nrs)
       \<and> length shs = 5 \<and> length cvs = 5 \<and> length sos = 5
       \<and> vs = [[Fin 2], [Fin (41 / 20)], [Fin (21 / 10)], [Fin (43 / 20)], [Fin (11 / 5)]]
       \<and> nrs = [Fin 2, Fin (41 / 20), Fin (21 / 10), Fin (43 / 20), Fin (11 / 5)])"
proof -
  let ?d = "\<lambda>_ _ _ _. three_assets" and ?s = "(2021, 1, 1) :: date" and ?e = "(2023, 12, 31) :: date"
  let ?ps = "sweep_portfolios ?d Pad ?s ?e"
  have ps: "?ps = map (\<lambda>q. post_init ?d Pad (sweep_assets q) ?s ?e ''1mo'')
      [0, 5 / 100, 10 / 100, 15 / 100, 20 / 100]"
    unfolding sweep_portfolios_def sweep_grid by simp
  have h: "list_all (\<lambda>p. length (columns (market_returns p)) = 3 \<and> rows (market_returns p) \<noteq> []) ?ps"
    unfolding ps by (simp add: post_init_market_returns three_assets_returns)
  have iso: "iso_dates ''2021-01-01'' = Inr ?s \<and> iso_dates ''2023-12-31'' = Inr ?e"
    by (simp add: iso_dates_def)
  note sw = sensitivity_sweep [of ?d Pad ?s ?e iso_dates "''2021-01-01''" "''2023-12-31''"]
  from sw h obtain res where res: "collect_metrics ?ps = Inr res" by blast
  obtain shs cvs sos vs nrs where r: "res = (shs, cvs, sos, vs, nrs)" by (cases res) auto
  from sw iso res r have plot:
    "plot_sensitivity_analysis iso_dates ?d Pad ''2021-01-01'' ''2023-12-31'' = Inr (shs, cvs, sos, vs, nrs)"
    by simp
  from sw res r have len: "length shs = 5" "length cvs = 5" "length sos = 5" "length vs = 5" "length nrs = 5"
    and each: "\<forall>i<5. (\<exists>r c pnl. portfolio_return_metrics (?ps ! i) = Inr (r, vs ! i, c, pnl))
        \<and> nrs ! i = last (vs ! i)"
    by blast+
  let ?grid = "[0, 5 / 100, 10 / 100, 15 / 100, 20 / 100] :: real list"
  have vi: "vs ! i = [Fin (2 + ?grid ! i)]" if "i < 5" for i
  proof -
    from each that obtain r c pnl where
      m: "portfolio_return_metrics (?ps ! i) = Inr (r, vs ! i, c, pnl)" by blast
    from that have "?ps ! i = post_init ?d Pad (sweep_assets (?grid ! i)) ?s ?e ''1mo''"
      unfolding ps by (intro nth_map) simp
    with m three_assets_sweep_metrics [of "?grid ! i" ?s ?e] show ?thesis by simp
  qed
  have v: "vs ! 0 = [Fin 2]" "vs ! 1 = [Fin (41 / 20)]" "vs ! 2 = [Fin (21 / 10)]"
    "vs ! 3 = [Fin (43 / 20)]" "vs ! 4 = [Fin (11 / 5)]"
    using vi [of 0] vi [of 1] vi [of 2] vi [of 3] vi [of 4] by (simp_all add: eval_nat_numeral)
  with len have vs: "vs = [[Fin 2], [Fin (41 / 20)], [Fin (21 / 10)], [Fin (43 / 20)], [Fin (11 / 5)]]"
    by (intro nth_equalityI) (auto simp: less_Suc_eq eval_nat_numeral)
  from each v have "nrs ! 0 = Fin 2" "nrs ! 1 = Fin (41 / 20)" "nrs ! 2 = Fin (21 / 10)"
    "nrs ! 3 = Fin (43 / 20)" "nrs ! 4 = Fin (11 / 5)"
    by (simp_all add: eval_nat_numeral)
  with len have nrs: "nrs = [Fin 2, Fin (41 / 20), Fin (21 / 10), Fin (43 / 20), Fin (11 / 5)]"
    by (intro nth_equalityI) (auto simp: less_Suc_eq eval_nat_numeral)
  from h iso plot len vs nrs show ?thesis by blast
qed

end
